theory Spec2Isabelle
  imports Complex_Main "HOL-Library.Multiset"
begin

section \<open>Data model\<close>

text \<open>
  The tables of the application, one record per ORM class. A table is the list of its
  rows in the order in which an unordered SELECT returns them. Python floats and the
  database's numeric results are read as exact reals; timestamps are clock readings.
\<close>

type_synonym time = nat

datatype error =
    ValueError | ZeroDivisionError | AttributeError | MultipleResultsFound | DBAPIError
  | HTTPException nat

text \<open>\<^verbatim>\<open>models/multi_dimensional_rating.py\<close>, class \<^verbatim>\<open>MultiDimensionalRating\<close>.\<close>

record rating =
  r_id :: int
  r_user_id :: int
  r_book_id :: int
  pace :: "int option"
  emotional_impact :: "int option"
  complexity :: "int option"
  character_development :: "int option"
  plot_quality :: "int option"
  prose_style :: "int option"
  originality :: "int option"
  r_created_at :: time
  r_updated_at :: "time option"

text \<open>\<^verbatim>\<open>models/multi_dimensional_rating.py\<close>, class \<^verbatim>\<open>BookFingerprint\<close>.\<close>

record book_fingerprint =
  fp_book_id :: int
  avg_pace :: "real option"
  avg_emotional_impact :: "real option"
  avg_complexity :: "real option"
  avg_character_development :: "real option"
  avg_plot_quality :: "real option"
  avg_prose_style :: "real option"
  avg_originality :: "real option"
  fp_star_equivalent :: "real option"
  total_ratings :: int
  fp_updated_at :: time

text \<open>
  \<^verbatim>\<open>models/book.py\<close>, class \<^verbatim>\<open>Book\<close>, reduced to its primary key, the one column
  of the class that the services read.
\<close>

record book =
  b_id :: int

text \<open>\<^verbatim>\<open>models/user_book.py\<close>, class \<^verbatim>\<open>UserBook\<close>.\<close>

record user_book =
  ub_user_id :: int
  ub_book_id :: int
  status :: string

record db =
  books :: "book list"
  user_books :: "user_book list"
  ratings :: "rating list"
  fingerprints :: "book_fingerprint list"

section \<open>Vector arithmetic (\<^verbatim>\<open>services/embeddings.py\<close>)\<close>

text \<open>Python's \<^verbatim>\<open>/\<close> on floats raises on a zero divisor.\<close>

definition truediv :: "real \<Rightarrow> real \<Rightarrow> error + real" where
  "truediv a b = (if b = 0 then Inl ZeroDivisionError else Inr (a / b))"

text \<open>
  \<^verbatim>\<open>x ** 0.5\<close> is applied to sums of squares only, where it is the square root.
\<close>

definition cosine_similarity :: "real list \<Rightarrow> real list \<Rightarrow> error + real" where
  "cosine_similarity vec1 vec2 =
     (if length vec1 \<noteq> length vec2 then Inl ValueError
      else
        let dot_product = (\<Sum>(a, b)\<leftarrow>zip vec1 vec2. a * b);
            mag1 = sqrt (\<Sum>a\<leftarrow>vec1. a * a);
            mag2 = sqrt (\<Sum>b\<leftarrow>vec2. b * b)
        in if mag1 = 0 \<or> mag2 = 0 then Inr 0
           else truediv dot_product (mag1 * mag2))"

section \<open>Query helpers\<close>

text \<open>
  \<^verbatim>\<open>Result.scalar_one_or_none()\<close>: no row gives \<^verbatim>\<open>None\<close>, one row gives the row,
  more than one raises.
\<close>

definition scalar_one_or_none :: "'a list \<Rightarrow> error + 'a option" where
  "scalar_one_or_none rows =
     (case rows of
        [] \<Rightarrow> Inr None
      | [x] \<Rightarrow> Inr (Some x)
      | _ \<Rightarrow> Inl MultipleResultsFound)"

text \<open>\<^verbatim>\<open>[d for d in dimensions if d is not None]\<close>\<close>

primrec non_null :: "'a option list \<Rightarrow> 'a list" where
  "non_null [] = []"
| "non_null (d # ds) = (case d of None \<Rightarrow> non_null ds | Some v \<Rightarrow> v # non_null ds)"

text \<open>
  The SQL aggregate \<^verbatim>\<open>AVG(column)\<close> over the selected rows: it accumulates the sum and
  the number of the values that are not NULL, and yields NULL when there is none.
\<close>

fun avg_acc :: "int option list \<Rightarrow> int \<Rightarrow> nat \<Rightarrow> real option" where
  "avg_acc [] s n = (if n = 0 then None else Some (real_of_int s / real n))"
| "avg_acc (None # col) s n = avg_acc col s n"
| "avg_acc (Some v # col) s n = avg_acc col (s + v) (Suc n)"

definition func_avg :: "int option list \<Rightarrow> real option" where
  "func_avg col = avg_acc col 0 0"

text \<open>The SQL aggregate \<^verbatim>\<open>COUNT(*)\<close>.\<close>

definition func_count :: "'a list \<Rightarrow> int" where
  "func_count rows = int (length rows)"

section \<open>Fingerprint aggregation (\<^verbatim>\<open>routers/multi_dimensional_ratings.py\<close>)\<close>

text \<open>The row of aggregates selected at the start of \<^verbatim>\<open>update_book_fingerprint\<close>.\<close>

record stats_row =
  s_avg_pace :: "real option"
  s_avg_emotional_impact :: "real option"
  s_avg_complexity :: "real option"
  s_avg_character_development :: "real option"
  s_avg_plot_quality :: "real option"
  s_avg_prose_style :: "real option"
  s_avg_originality :: "real option"
  s_total_ratings :: int

definition stats_query :: "db \<Rightarrow> int \<Rightarrow> stats_row" where
  "stats_query d book_id =
     (let rows = filter (\<lambda>r. r_book_id r = book_id) (ratings d)
      in \<lparr> s_avg_pace = func_avg (map pace rows),
           s_avg_emotional_impact = func_avg (map emotional_impact rows),
           s_avg_complexity = func_avg (map complexity rows),
           s_avg_character_development = func_avg (map character_development rows),
           s_avg_plot_quality = func_avg (map plot_quality rows),
           s_avg_prose_style = func_avg (map prose_style rows),
           s_avg_originality = func_avg (map originality rows),
           s_total_ratings = func_count rows \<rparr>)"

text \<open>
  The star equivalent of the row of aggregates: the mean of the aggregates that are not
  \<^verbatim>\<open>None\<close>, or \<^verbatim>\<open>None\<close> when there is none (lines 205 to 216).
\<close>

definition star_of_stats :: "stats_row \<Rightarrow> real option" where
  "star_of_stats stats =
     (let dimensions = [s_avg_pace stats, s_avg_emotional_impact stats, s_avg_complexity stats,
                        s_avg_character_development stats, s_avg_plot_quality stats,
                        s_avg_prose_style stats, s_avg_originality stats];
          nn = non_null dimensions
      in if nn \<noteq> [] then Some (sum_list nn / real (length nn)) else None)"

text \<open>
  A binary fraction is an integer divided by a power of two, the power being at most
  \<open>2 ^ 1074\<close>, the finest step of a double; every double is one.
\<close>

definition binary_fraction :: "real \<Rightarrow> bool" where
  "binary_fraction x = list_ex (\<lambda>k. real_of_int \<lfloor>x * 2 ^ k\<rfloor> = x * 2 ^ k) [0..<1075]"

definition binary_or_null :: "real option \<Rightarrow> bool" where
  "binary_or_null x = (case x of None \<Rightarrow> True | Some v \<Rightarrow> binary_fraction v)"

text \<open>
  The flush of a commit compares every assigned attribute with the value loaded from the
  row and emits an UPDATE only when one of them differs. An average is loaded from its
  \<^verbatim>\<open>Float\<close> column as a double and is assigned as the decimal number that the aggregate
  query returns. The averages are kept here as exact numbers; of their representation
  the comparison is all that matters: an assigned average equals the loaded one when the
  aggregate is the same as at the last write and is null or a binary fraction, and an
  assigned average that is not a binary fraction equals no double.
\<close>

definition net_change :: "real option \<Rightarrow> real option \<Rightarrow> bool" where
  "net_change loaded assigned \<longleftrightarrow> loaded \<noteq> assigned \<or> \<not> binary_or_null assigned"

text \<open>Whether the nine assignments of the update branch leave the row with a net change.\<close>

definition is_modified :: "book_fingerprint \<Rightarrow> stats_row \<Rightarrow> bool" where
  "is_modified fingerprint stats \<longleftrightarrow>
     net_change (avg_pace fingerprint) (s_avg_pace stats) \<or>
     net_change (avg_emotional_impact fingerprint) (s_avg_emotional_impact stats) \<or>
     net_change (avg_complexity fingerprint) (s_avg_complexity stats) \<or>
     net_change (avg_character_development fingerprint) (s_avg_character_development stats) \<or>
     net_change (avg_plot_quality fingerprint) (s_avg_plot_quality stats) \<or>
     net_change (avg_prose_style fingerprint) (s_avg_prose_style stats) \<or>
     net_change (avg_originality fingerprint) (s_avg_originality stats) \<or>
     net_change (fp_star_equivalent fingerprint) (star_of_stats stats) \<or>
     total_ratings fingerprint \<noteq> s_total_ratings stats"

text \<open>
  \<^verbatim>\<open>update_book_fingerprint(db, book_id)\<close>, with the clock reading \<open>now\<close> of the commit.
  The row is looked up by its primary key. The update branch assigns the nine aggregate
  attributes; when that leaves a net change the commit emits an UPDATE, which the column
  default \<^verbatim>\<open>onupdate=func.now()\<close> stamps with the clock, and otherwise it writes nothing.
  The insert branch adds a row, stamped by \<^verbatim>\<open>server_default=func.now()\<close>. The database
  rejects a written row whose \<^verbatim>\<open>total_ratings\<close> does not fit the \<^verbatim>\<open>SmallInteger\<close> column
  and a new row for a book that does not exist (foreign key); the commit then raises and
  nothing is stored.
\<close>

definition update_book_fingerprint :: "db \<Rightarrow> int \<Rightarrow> time \<Rightarrow> error + (db \<times> book_fingerprint)" where
  "update_book_fingerprint d book_id now =
     (let stats = stats_query d book_id;
          star_equivalent = star_of_stats stats
      in case scalar_one_or_none (filter (\<lambda>f. fp_book_id f = book_id) (fingerprints d)) of
           Inl e \<Rightarrow> Inl e
         | Inr (Some fingerprint) \<Rightarrow>
             let fingerprint' = fingerprint
                   \<lparr> avg_pace := s_avg_pace stats,
                     avg_emotional_impact := s_avg_emotional_impact stats,
                     avg_complexity := s_avg_complexity stats,
                     avg_character_development := s_avg_character_development stats,
                     avg_plot_quality := s_avg_plot_quality stats,
                     avg_prose_style := s_avg_prose_style stats,
                     avg_originality := s_avg_originality stats,
                     fp_star_equivalent := star_equivalent,
                     total_ratings := s_total_ratings stats \<rparr>
             in if \<not> is_modified fingerprint stats then Inr (d, fingerprint)
                else if 32767 < s_total_ratings stats then Inl DBAPIError
                else
                  let stored = fingerprint' \<lparr> fp_updated_at := now \<rparr>
                  in Inr (d \<lparr> fingerprints :=
                               map (\<lambda>f. if fp_book_id f = book_id then stored else f)
                                   (fingerprints d) \<rparr>,
                          stored)
         | Inr None \<Rightarrow>
             if book_id \<notin> b_id ` set (books d) then Inl DBAPIError
             else if 32767 < s_total_ratings stats then Inl DBAPIError
             else
               let fingerprint =
                     \<lparr> fp_book_id = book_id,
                       avg_pace = s_avg_pace stats,
                       avg_emotional_impact = s_avg_emotional_impact stats,
                       avg_complexity = s_avg_complexity stats,
                       avg_character_development = s_avg_character_development stats,
                       avg_plot_quality = s_avg_plot_quality stats,
                       avg_prose_style = s_avg_prose_style stats,
                       avg_originality = s_avg_originality stats,
                       fp_star_equivalent = star_equivalent,
                       total_ratings = s_total_ratings stats,
                       fp_updated_at = now \<rparr>
               in Inr (d \<lparr> fingerprints := fingerprints d @ [fingerprint] \<rparr>, fingerprint))"

text \<open>Two recomputations in a row, at the clock readings \<open>t1\<close> and \<open>t2\<close>, with the two rows they return.\<close>

definition recompute_twice ::
  "db \<Rightarrow> int \<Rightarrow> time \<Rightarrow> time \<Rightarrow> error + (book_fingerprint \<times> book_fingerprint)" where
  "recompute_twice d book_id t1 t2 =
     (case update_book_fingerprint d book_id t1 of
        Inl e \<Rightarrow> Inl e
      | Inr (d1, fp1) \<Rightarrow>
          (case update_book_fingerprint d1 book_id t2 of
             Inl e \<Rightarrow> Inl e
           | Inr (d2, fp2) \<Rightarrow> Inr (fp1, fp2)))"

subsection \<open>What the specification asks of the aggregates\<close>

text \<open>
  The arithmetic mean of the values of a column that are not null: \<open>None\<close> when every
  value is null, and otherwise the number whose product with the count of the set values
  is their sum.
\<close>

definition spec_mean_non_null :: "int option list \<Rightarrow> real option \<Rightarrow> bool" where
  "spec_mean_non_null col m =
     (case m of
        None \<Rightarrow> list_all (\<lambda>x. x = None) col
      | Some a \<Rightarrow>
          \<not> list_all (\<lambda>x. x = None) col \<and>
          a * real (length (filter (\<lambda>x. x \<noteq> None) col)) =
            real_of_int (\<Sum>x\<leftarrow>col. case x of None \<Rightarrow> 0 | Some v \<Rightarrow> v))"

text \<open>The mean of the per-dimension means that are not null, \<open>None\<close> when all are.\<close>

definition spec_mean_of_means :: "real option list \<Rightarrow> real option \<Rightarrow> bool" where
  "spec_mean_of_means ms m =
     (case m of
        None \<Rightarrow> list_all (\<lambda>x. x = None) ms
      | Some a \<Rightarrow>
          \<not> list_all (\<lambda>x. x = None) ms \<and>
          a * real (length (filter (\<lambda>x. x \<noteq> None) ms)) =
            (\<Sum>x\<leftarrow>ms. case x of None \<Rightarrow> 0 | Some v \<Rightarrow> v))"

text \<open>
  A fingerprint row all of whose averages, and whose star equivalent, are null or binary
  fractions: the numbers that a \<^verbatim>\<open>Float\<close> column gives back as they were written.
\<close>

definition exactly_stored :: "book_fingerprint \<Rightarrow> bool" where
  "exactly_stored fp \<longleftrightarrow>
     list_all binary_or_null
       [avg_pace fp, avg_emotional_impact fp, avg_complexity fp,
        avg_character_development fp, avg_plot_quality fp, avg_prose_style fp,
        avg_originality fp, fp_star_equivalent fp]"

section \<open>Similarity search (\<^verbatim>\<open>services/recommendations.py\<close>)\<close>

text \<open>
  \<^verbatim>\<open>BookFingerprint.fingerprint_vector\<close>: each average, or \<open>3.0\<close> where Python's
  \<^verbatim>\<open>or\<close> finds the average falsy (\<^verbatim>\<open>None\<close> or zero).
\<close>

definition or_neutral :: "real option \<Rightarrow> real" where
  "or_neutral x = (case x of None \<Rightarrow> 3 | Some v \<Rightarrow> if v = 0 then 3 else v)"

definition fingerprint_vector :: "book_fingerprint \<Rightarrow> real list" where
  "fingerprint_vector f =
     [or_neutral (avg_pace f), or_neutral (avg_emotional_impact f),
      or_neutral (avg_complexity f), or_neutral (avg_character_development f),
      or_neutral (avg_plot_quality f), or_neutral (avg_prose_style f),
      or_neutral (avg_originality f)]"

text \<open>
  The Python slice \<^verbatim>\<open>xs[:n]\<close>: the first \<open>n\<close> elements, and for a negative \<open>n\<close> all
  but the last \<open>-n\<close>.
\<close>

definition slice_to :: "'a list \<Rightarrow> int \<Rightarrow> 'a list" where
  "slice_to xs n = (if 0 \<le> n then take (nat n) xs else take (length xs - nat (- n)) xs)"

text \<open>
  The end of both searches: \<^verbatim>\<open>sort(key=lambda x: x[1], reverse=True)\<close>, a stable sort
  that puts the greater similarity first and leaves equal similarities in the order they
  had, then the slice \<^verbatim>\<open>[:limit]\<close> and the projection to the books.
\<close>

definition rank_and_take :: "('a \<times> real) list \<Rightarrow> int \<Rightarrow> 'a list" where
  "rank_and_take books_with_similarity limit =
     map fst (slice_to (sort_key (\<lambda>x. - snd x) books_with_similarity) limit)"

text \<open>An optional list argument counts as given when it is a list that is not empty.\<close>

definition given_ids :: "int list option \<Rightarrow> int list" where
  "given_ids exclude_book_ids = (case exclude_book_ids of None \<Rightarrow> [] | Some ids \<Rightarrow> ids)"

text \<open>The join of the books with their fingerprints, \<^verbatim>\<open>Book.id == BookFingerprint.book_id\<close>.\<close>

definition books_join_fingerprints :: "db \<Rightarrow> (book \<times> book_fingerprint) list" where
  "books_join_fingerprints d =
     concat (map (\<lambda>b. map (\<lambda>f. (b, f)) (filter (\<lambda>f. b_id b = fp_book_id f) (fingerprints d)))
                 (books d))"

text \<open>The candidate query of the fingerprint search (lines 110 to 123).\<close>

definition fingerprint_query :: "db \<Rightarrow> int \<Rightarrow> int list option \<Rightarrow> (book \<times> book_fingerprint) list" where
  "fingerprint_query d book_id exclude_book_ids =
     (let q = filter (\<lambda>(b, f). fp_book_id f \<noteq> book_id \<and> 3 \<le> total_ratings f)
                (books_join_fingerprints d)
      in if given_ids exclude_book_ids \<noteq> []
         then filter (\<lambda>(b, f). b_id b \<notin> set (given_ids exclude_book_ids)) q
         else q)"

text \<open>The scoring loop of the fingerprint search (lines 126 to 130).\<close>

fun score_fingerprints ::
  "real list \<Rightarrow> (book \<times> book_fingerprint) list \<Rightarrow> error + (book \<times> real) list" where
  "score_fingerprints target_vector [] = Inr []"
| "score_fingerprints target_vector ((b, fingerprint) # rest) =
     (case cosine_similarity target_vector (fingerprint_vector fingerprint) of
        Inl e \<Rightarrow> Inl e
      | Inr similarity \<Rightarrow>
          (case score_fingerprints target_vector rest of
             Inl e \<Rightarrow> Inl e
           | Inr scored \<Rightarrow> Inr ((b, similarity) # scored)))"

definition get_similar_books_by_fingerprint ::
  "db \<Rightarrow> int \<Rightarrow> int \<Rightarrow> int list option \<Rightarrow> error + book list" where
  "get_similar_books_by_fingerprint d book_id limit exclude_book_ids =
     (case scalar_one_or_none (filter (\<lambda>f. fp_book_id f = book_id) (fingerprints d)) of
        Inl e \<Rightarrow> Inl e
      | Inr None \<Rightarrow> Inr []
      | Inr (Some target_fp) \<Rightarrow>
          if total_ratings target_fp < 3 then Inr []
          else
            (case score_fingerprints (fingerprint_vector target_fp)
                    (fingerprint_query d book_id exclude_book_ids) of
               Inl e \<Rightarrow> Inl e
             | Inr books_with_similarity \<Rightarrow> Inr (rank_and_take books_with_similarity limit)))"

text \<open>
  The embedding search opens with \<^verbatim>\<open>select(Book.description_embedding)\<close> (line 44).
  The class \<^verbatim>\<open>Book\<close> declares no attribute of that name, and nothing else in the
  repository adds one, so evaluating the expression raises \<^verbatim>\<open>AttributeError\<close> before
  any query is run, whatever the arguments; the rest of the body is never reached.
\<close>

definition get_similar_books_by_embedding ::
  "db \<Rightarrow> int \<Rightarrow> int \<Rightarrow> int list option \<Rightarrow> error + book list" where
  "get_similar_books_by_embedding d book_id limit exclude_book_ids = Inl AttributeError"

section \<open>Personalised recommendations (\<^verbatim>\<open>services/recommendations.py\<close>)\<close>

text \<open>
  \<^verbatim>\<open>MultiDimensionalRating.star_equivalent\<close>: the mean of the dimensions the rating sets.
\<close>

definition star_equivalent :: "rating \<Rightarrow> real option" where
  "star_equivalent r =
     (let dimensions = [pace r, emotional_impact r, complexity r, character_development r,
                        plot_quality r, prose_style r, originality r];
          nn = non_null dimensions
      in if nn = [] then None else Some (real_of_int (sum_list nn) / real (length nn)))"

text \<open>
  The reason of a recommendation: the fixed text of the first strategy, or the text of
  the fallback, which quotes the star equivalent of the fingerprint.
\<close>

datatype reason = Similar_feel | Highly_rated "real option"

record recommendation =
  rec_book :: book
  rec_reason :: reason
  rec_score :: real

text \<open>
  Lines 165 to 175: the user's ratings in the order the query returns them, kept when
  the star equivalent is truthy and at least 4.
\<close>

definition highly_rated_book_ids :: "db \<Rightarrow> int \<Rightarrow> int list" where
  "highly_rated_book_ids d user_id =
     (let user_ratings = filter (\<lambda>r. r_user_id r = user_id) (ratings d)
      in map r_book_id
           (filter (\<lambda>r. case star_equivalent r of None \<Rightarrow> False | Some s \<Rightarrow> s \<noteq> 0 \<and> 4 \<le> s)
              user_ratings))"

text \<open>The anchors of the first strategy, \<^verbatim>\<open>highly_rated_book_ids[:3]\<close> (line 191).\<close>

definition favorites :: "db \<Rightarrow> int \<Rightarrow> int list" where
  "favorites d user_id = take 3 (highly_rated_book_ids d user_id)"

text \<open>
  Lines 177 to 186: the ids excluded at the start. The Python set is kept as a list, of
  which only membership and emptiness are read.
\<close>

definition initial_exclude_ids :: "db \<Rightarrow> int \<Rightarrow> bool \<Rightarrow> int list" where
  "initial_exclude_ids d user_id exclude_read =
     (let ubs = filter (\<lambda>ub. ub_user_id ub = user_id) (user_books d)
      in if exclude_read then map ub_book_id ubs
         else map ub_book_id (filter (\<lambda>ub. status ub \<in> set [''finished'', ''dnf'']) ubs))"

text \<open>Lines 196 to 203: the inner loop over the books similar to one favourite.\<close>

fun add_similar ::
  "book list \<Rightarrow> recommendation list \<times> int list \<Rightarrow> recommendation list \<times> int list" where
  "add_similar [] st = st"
| "add_similar (book # rest) (recommendations, exclude_ids) =
     (if b_id book \<notin> set exclude_ids
      then add_similar rest
             (recommendations @ [\<lparr> rec_book = book, rec_reason = Similar_feel, rec_score = 9 / 10 \<rparr>],
              exclude_ids @ [b_id book])
      else add_similar rest (recommendations, exclude_ids))"

text \<open>Lines 191 to 203: the loop over the favourites.\<close>

fun similar_to_favorites ::
  "db \<Rightarrow> int list \<Rightarrow> recommendation list \<times> int list \<Rightarrow>
     error + (recommendation list \<times> int list)" where
  "similar_to_favorites d [] st = Inr st"
| "similar_to_favorites d (book_id # rest) (recommendations, exclude_ids) =
     (case get_similar_books_by_fingerprint d book_id 5 (Some exclude_ids) of
        Inl e \<Rightarrow> Inl e
      | Inr similar \<Rightarrow>
          similar_to_favorites d rest (add_similar similar (recommendations, exclude_ids)))"

text \<open>
  Lines 210 to 223: the fallback query. A fingerprint whose star equivalent is NULL fails
  the comparison; \<^verbatim>\<open>ORDER BY total_ratings DESC\<close> is taken as a stable sort of the rows.
\<close>

definition popular_query :: "db \<Rightarrow> int list \<Rightarrow> int \<Rightarrow> (book \<times> book_fingerprint) list" where
  "popular_query d exclude_ids n =
     take (nat n)
       (sort_key (\<lambda>(b, f). - total_ratings f)
          (filter (\<lambda>(b, f). 10 \<le> total_ratings f \<and>
                     (case fp_star_equivalent f of None \<Rightarrow> False | Some s \<Rightarrow> 4 \<le> s) \<and>
                     b_id b \<notin> set exclude_ids)
             (books_join_fingerprints d)))"

definition get_personalized_recommendations ::
  "db \<Rightarrow> int \<Rightarrow> int \<Rightarrow> bool \<Rightarrow> error + recommendation list" where
  "get_personalized_recommendations d user_id limit exclude_read =
     (case similar_to_favorites d (favorites d user_id)
             ([], initial_exclude_ids d user_id exclude_read) of
        Inl e \<Rightarrow> Inl e
      | Inr (recommendations, exclude_ids) \<Rightarrow>
          let recommendations' =
                (if int (length recommendations) < limit
                 then recommendations @
                      map (\<lambda>(b, fp). \<lparr> rec_book = b,
                                       rec_reason = Highly_rated (fp_star_equivalent fp),
                                       rec_score = 7 / 10 \<rparr>)
                        (popular_query d exclude_ids (limit - int (length recommendations)))
                 else recommendations)
          in Inr (slice_to (sort_key (\<lambda>x. - rec_score x) recommendations') limit))"

subsection \<open>What the specification asks of the recommendations\<close>

text \<open>
  The exclusion set implied by the flag: every book of the user's library when the flag
  is set, and otherwise the books of the library marked finished or dnf.
\<close>

definition spec_exclusion_set :: "db \<Rightarrow> int \<Rightarrow> bool \<Rightarrow> int set" where
  "spec_exclusion_set d user_id exclude_read =
     {ub_book_id ub | ub. ub \<in> set (user_books d) \<and> ub_user_id ub = user_id \<and>
        (exclude_read \<or> status ub = ''finished'' \<or> status ub = ''dnf'')}"

text \<open>
  The favourites as the specification words them: the user's own ratings with a star
  equivalent of at least 4, the most recent first, capped at 3.
\<close>

definition spec_favorites :: "db \<Rightarrow> int \<Rightarrow> int list" where
  "spec_favorites d user_id =
     take 3 (map r_book_id
       (sort_key (\<lambda>r. - int (r_created_at r))
          (filter (\<lambda>r. r_user_id r = user_id \<and>
                     (case star_equivalent r of None \<Rightarrow> False | Some s \<Rightarrow> 4 \<le> s))
             (ratings d))))"

text \<open>
  The invariant of the two loops of the first strategy, for the ids \<open>excl0\<close> excluded at
  the start: the recommended books are pairwise different, all of them are in the
  running exclusion set, which contains \<open>excl0\<close>, and none of them is in \<open>excl0\<close>.
\<close>

definition rec_inv :: "int list \<Rightarrow> recommendation list \<times> int list \<Rightarrow> bool" where
  "rec_inv excl0 st \<longleftrightarrow>
     distinct (map (\<lambda>r. b_id (rec_book r)) (fst st)) \<and>
     (\<lambda>r. b_id (rec_book r)) ` set (fst st) \<subseteq> set (snd st) \<and>
     set excl0 \<subseteq> set (snd st) \<and>
     (\<lambda>r. b_id (rec_book r)) ` set (fst st) \<inter> set excl0 = {}"

section \<open>Browsing by mood (\<^verbatim>\<open>services/recommendations.py\<close>)\<close>

text \<open>
  \<^verbatim>\<open>str.lower()\<close>. The letters A to Z are mapped to a to z and every other character
  is left as it is; this is all of \<^verbatim>\<open>lower\<close> that can produce one of the four labels.
\<close>

definition lower_char :: "char \<Rightarrow> char" where
  "lower_char c =
     (case map_of (zip ''ABCDEFGHIJKLMNOPQRSTUVWXYZ'' ''abcdefghijklmnopqrstuvwxyz'') c of
        None \<Rightarrow> c
      | Some l \<Rightarrow> l)"

definition lower :: "string \<Rightarrow> string" where
  "lower s = map lower_char s"

text \<open>
  The keys of a mood's filter dictionary name a dimension and end in \<^verbatim>\<open>_min\<close> or
  \<^verbatim>\<open>_max\<close>: \<^verbatim>\<open>"complexity_max": 3.0\<close> is the entry \<open>(Complexity, Max, 3)\<close>.
\<close>

datatype dimension =
    Pace | Emotional_impact | Complexity | Character_development
  | Plot_quality | Prose_style | Originality

datatype bound = Min | Max

text \<open>\<^verbatim>\<open>getattr(BookFingerprint, f"avg_{field}")\<close>\<close>

fun avg_column :: "dimension \<Rightarrow> book_fingerprint \<Rightarrow> real option" where
  "avg_column Pace f = avg_pace f"
| "avg_column Emotional_impact f = avg_emotional_impact f"
| "avg_column Complexity f = avg_complexity f"
| "avg_column Character_development f = avg_character_development f"
| "avg_column Plot_quality f = avg_plot_quality f"
| "avg_column Prose_style f = avg_prose_style f"
| "avg_column Originality f = avg_originality f"

definition mood_filters :: "(string \<times> (dimension \<times> bound \<times> real) list) list" where
  "mood_filters =
     [(''comfort'', [(Emotional_impact, Min, 4), (Complexity, Max, 3)]),
      (''challenge'', [(Complexity, Min, 4), (Originality, Min, 4)]),
      (''escape'', [(Pace, Min, 4), (Plot_quality, Min, 4)]),
      (''contemplative'', [(Pace, Max, 5 / 2), (Prose_style, Min, 4)])]"

text \<open>
  One \<^verbatim>\<open>query.where(column >= value)\<close> or \<^verbatim>\<open>query.where(column <= value)\<close>; the
  comparison with a NULL average is not true.
\<close>

fun passes :: "dimension \<times> bound \<times> real \<Rightarrow> book_fingerprint \<Rightarrow> bool" where
  "passes (field, Min, v) f = (case avg_column field f of None \<Rightarrow> False | Some a \<Rightarrow> v \<le> a)"
| "passes (field, Max, v) f = (case avg_column field f of None \<Rightarrow> False | Some a \<Rightarrow> a \<le> v)"

text \<open>
  \<^verbatim>\<open>get_books_by_mood\<close>. The query is only run for a known mood; the database rejects a
  negative \<^verbatim>\<open>LIMIT\<close>.
\<close>

definition get_books_by_mood :: "db \<Rightarrow> string \<Rightarrow> int \<Rightarrow> error + book list" where
  "get_books_by_mood d mood limit =
     (case map_of mood_filters (lower mood) of
        None \<Rightarrow> Inr []
      | Some filters \<Rightarrow>
          if filters = [] then Inr []
          else
            let query = filter (\<lambda>(b, f). 5 \<le> total_ratings f) (books_join_fingerprints d);
                query' = fold (\<lambda>flt q. filter (\<lambda>(b, f). passes flt f) q) filters query
            in if limit < 0 then Inl DBAPIError
               else Inr (map fst (take (nat limit) query')))"

subsection \<open>What the specification asks of a mood\<close>

text \<open>The table of the specification: the predicate of each mood label.\<close>

definition at_least :: "real option \<Rightarrow> real \<Rightarrow> bool" where
  "at_least x v = (case x of None \<Rightarrow> False | Some a \<Rightarrow> v \<le> a)"

definition at_most :: "real option \<Rightarrow> real \<Rightarrow> bool" where
  "at_most x v = (case x of None \<Rightarrow> False | Some a \<Rightarrow> a \<le> v)"

definition spec_mood_predicate :: "string \<Rightarrow> book_fingerprint \<Rightarrow> bool" where
  "spec_mood_predicate m f =
     (if m = ''comfort'' then at_least (avg_emotional_impact f) 4 \<and> at_most (avg_complexity f) 3
      else if m = ''challenge'' then at_least (avg_complexity f) 4 \<and> at_least (avg_originality f) 4
      else if m = ''escape'' then at_least (avg_pace f) 4 \<and> at_least (avg_plot_quality f) 4
      else if m = ''contemplative'' then at_most (avg_pace f) (5 / 2) \<and> at_least (avg_prose_style f) 4
      else False)"

text \<open>
  The mood query as the specification words it: the predicate of the mood, applied to
  the books whose fingerprint rests on at least 3 ratings, the floor of the fingerprint
  search.
\<close>

definition spec_books_by_mood :: "db \<Rightarrow> string \<Rightarrow> int \<Rightarrow> book list" where
  "spec_books_by_mood d m limit =
     map fst (take (nat limit)
       (filter (\<lambda>(b, f). 3 \<le> total_ratings f \<and> spec_mood_predicate m f)
          (books_join_fingerprints d)))"

definition mood_labels :: "string list" where
  "mood_labels = [''comfort'', ''challenge'', ''escape'', ''contemplative'']"

section \<open>Submitting a rating (\<^verbatim>\<open>routers/multi_dimensional_ratings.py\<close>)\<close>

text \<open>
  \<^verbatim>\<open>schemas/multi_dimensional_rating.py\<close>, class \<^verbatim>\<open>MultiDimensionalRatingCreate\<close>. A
  field that the request leaves out is \<open>None\<close>; a field that the request sets is
  \<open>Some v\<close>, where \<open>v\<close> is the value, which may be null.
\<close>

record rating_create =
  rc_book_id :: int
  rc_pace :: "int option option"
  rc_emotional_impact :: "int option option"
  rc_complexity :: "int option option"
  rc_character_development :: "int option option"
  rc_plot_quality :: "int option option"
  rc_prose_style :: "int option option"
  rc_originality :: "int option option"

text \<open>\<^verbatim>\<open>model_dump()\<close> gives a field left out its default, null.\<close>

definition dumped :: "'a option option \<Rightarrow> 'a option" where
  "dumped u = (case u of None \<Rightarrow> None | Some v \<Rightarrow> v)"

text \<open>
  \<^verbatim>\<open>setattr\<close> for one key of \<^verbatim>\<open>model_dump(exclude_unset=True)\<close>: a field left out is
  not a key, and the attribute stays.
\<close>

definition set_given :: "'a option \<Rightarrow> 'a \<Rightarrow> 'a" where
  "set_given u old = (case u of None \<Rightarrow> old | Some v \<Rightarrow> v)"

text \<open>The serial primary key of a new rating row.\<close>

definition next_id :: "rating list \<Rightarrow> int" where
  "next_id rows = fold max (map r_id rows) 0 + 1"

text \<open>
  The check constraints of the ratings table: every dimension is null or between 1 and 5.
  A commit that writes a row outside them raises.
\<close>

definition valid_value :: "int option \<Rightarrow> bool" where
  "valid_value x = (case x of None \<Rightarrow> True | Some v \<Rightarrow> 1 \<le> v \<and> v \<le> 5)"

definition check_ok :: "rating \<Rightarrow> bool" where
  "check_ok r =
     list_all valid_value
       [pace r, emotional_impact r, complexity r, character_development r, plot_quality r,
        prose_style r, originality r]"

text \<open>
  Lines 51 to 54, the update of an existing rating: one \<^verbatim>\<open>setattr\<close> for every field
  that the request sets, the field \<^verbatim>\<open>book_id\<close> apart, then the stamp of \<^verbatim>\<open>updated_at\<close>.
\<close>

definition apply_update :: "rating \<Rightarrow> rating_create \<Rightarrow> time \<Rightarrow> rating" where
  "apply_update existing_rating rating_data now =
     existing_rating
       \<lparr> pace := set_given (rc_pace rating_data) (pace existing_rating),
         emotional_impact := set_given (rc_emotional_impact rating_data)
                               (emotional_impact existing_rating),
         complexity := set_given (rc_complexity rating_data) (complexity existing_rating),
         character_development := set_given (rc_character_development rating_data)
                                    (character_development existing_rating),
         plot_quality := set_given (rc_plot_quality rating_data) (plot_quality existing_rating),
         prose_style := set_given (rc_prose_style rating_data) (prose_style existing_rating),
         originality := set_given (rc_originality rating_data) (originality existing_rating),
         r_updated_at := Some now \<rparr>"

text \<open>Lines 58 to 60, the new rating of the create branch.\<close>

definition new_rating :: "db \<Rightarrow> int \<Rightarrow> rating_create \<Rightarrow> time \<Rightarrow> rating" where
  "new_rating d current_user_id rating_data now =
     \<lparr> r_id = next_id (ratings d),
       r_user_id = current_user_id,
       r_book_id = rc_book_id rating_data,
       pace = dumped (rc_pace rating_data),
       emotional_impact = dumped (rc_emotional_impact rating_data),
       complexity = dumped (rc_complexity rating_data),
       character_development = dumped (rc_character_development rating_data),
       plot_quality = dumped (rc_plot_quality rating_data),
       prose_style = dumped (rc_prose_style rating_data),
       originality = dumped (rc_originality rating_data),
       r_created_at = now,
       r_updated_at = None \<rparr>"

text \<open>
  \<^verbatim>\<open>create_or_update_rating\<close>, for the authenticated user \<open>current_user_id\<close> and the clock
  reading \<open>now\<close>. The UPDATE of the existing row goes by its primary key. The rating is
  committed (line 63) before the fingerprint is recomputed (line 67), so a failure of
  the recomputation leaves the rating stored: the function returns the database together
  with the row or the error raised.
\<close>

definition create_or_update_rating ::
  "db \<Rightarrow> int \<Rightarrow> rating_create \<Rightarrow> time \<Rightarrow> db \<times> (error + rating)" where
  "create_or_update_rating d current_user_id rating_data now =
     (case scalar_one_or_none (filter (\<lambda>b. b_id b = rc_book_id rating_data) (books d)) of
        Inl e \<Rightarrow> (d, Inl e)
      | Inr None \<Rightarrow> (d, Inl (HTTPException 404))
      | Inr (Some book) \<Rightarrow>
          (case scalar_one_or_none
                  (filter (\<lambda>r. r_user_id r = current_user_id \<and>
                              r_book_id r = rc_book_id rating_data) (ratings d)) of
             Inl e \<Rightarrow> (d, Inl e)
           | Inr existing \<Rightarrow>
               let (rating, d') =
                     (case existing of
                        Some existing_rating \<Rightarrow>
                          let rating = apply_update existing_rating rating_data now
                          in (rating,
                              d \<lparr> ratings := map (\<lambda>r. if r_id r = r_id existing_rating
                                                       then rating else r) (ratings d) \<rparr>)
                      | None \<Rightarrow>
                          let rating = new_rating d current_user_id rating_data now
                          in (rating, d \<lparr> ratings := ratings d @ [rating] \<rparr>))
               in if \<not> check_ok rating then (d, Inl DBAPIError)
                  else
                    (case update_book_fingerprint d' (rc_book_id rating_data) now of
                       Inl e \<Rightarrow> (d', Inl e)
                     | Inr (d'', fingerprint) \<Rightarrow> (d'', Inr rating))))"

subsection \<open>What the specification asks of an update\<close>

text \<open>
  A field of the stored rating after a request: left as it was when the request leaves
  the field out, and the value of the request when the request sets it.
\<close>

definition spec_field_frame :: "'a option \<Rightarrow> 'a \<Rightarrow> 'a \<Rightarrow> bool" where
  "spec_field_frame requested before after =
     (case requested of None \<Rightarrow> after = before | Some v \<Rightarrow> after = v)"

text \<open>
  A request that passed the validation of the schema (\<^verbatim>\<open>ge=1, le=5\<close> on every
  dimension): each field it sets is null or between 1 and 5.
\<close>

definition valid_request :: "rating_create \<Rightarrow> bool" where
  "valid_request rd =
     list_all (\<lambda>u. case u of None \<Rightarrow> True | Some x \<Rightarrow> valid_value x)
       [rc_pace rd, rc_emotional_impact rd, rc_complexity rd, rc_character_development rd,
        rc_plot_quality rd, rc_prose_style rd, rc_originality rd]"

subsection \<open>What a ranking is\<close>

text \<open>
  \<open>ranked\<close> is the list \<open>scored\<close> in descending order of the scores, with equal scores
  left in the order they have in \<open>scored\<close>.
\<close>

definition stable_descending :: "('a \<times> real) list \<Rightarrow> ('a \<times> real) list \<Rightarrow> bool" where
  "stable_descending scored ranked \<longleftrightarrow>
     mset ranked = mset scored \<and>
     sorted (rev (map snd ranked)) \<and>
     (\<forall>k\<in>snd ` set scored. filter (\<lambda>x. snd x = k) ranked = filter (\<lambda>x. snd x = k) scored)"

section \<open>Sample data\<close>

text \<open>
  One book with three ratings: the paces are 5, 5 and 4, one rating also sets the
  emotional impact, and no fingerprint has been stored yet.
\<close>

definition bk :: "int \<Rightarrow> book" where
  "bk i = \<lparr> b_id = i \<rparr>"

definition r0 :: "int \<Rightarrow> int \<Rightarrow> int \<Rightarrow> int option \<Rightarrow> int option \<Rightarrow> time \<Rightarrow> rating" where
  "r0 i u b p e t =
     \<lparr> r_id = i, r_user_id = u, r_book_id = b, pace = p, emotional_impact = e,
       complexity = None, character_development = None, plot_quality = None,
       prose_style = None, originality = None, r_created_at = t, r_updated_at = None \<rparr>"

definition d0 :: db where
  "d0 = \<lparr> books = [bk 1],
          user_books = [],
          ratings = [r0 1 10 1 (Some 5) (Some 4) 1, r0 2 11 1 (Some 5) None 2,
                     r0 3 12 1 (Some 4) None 3],
          fingerprints = [] \<rparr>"

text \<open>The same book with a single rating, of pace 5, and the row stored for it.\<close>

definition d1 :: db where
  "d1 = \<lparr> books = [bk 1], user_books = [], ratings = [r0 1 10 1 (Some 5) None 1],
          fingerprints = [] \<rparr>"

definition fp1 :: book_fingerprint where
  "fp1 = \<lparr> fp_book_id = 1, avg_pace = Some 5, avg_emotional_impact = None,
           avg_complexity = None, avg_character_development = None, avg_plot_quality = None,
           avg_prose_style = None, avg_originality = None,
           fp_star_equivalent = Some 5, total_ratings = 1, fp_updated_at = 1 \<rparr>"

text \<open>The same book rated by 32768 users, each with pace 5.\<close>

definition many_ratings :: "nat \<Rightarrow> rating list" where
  "many_ratings n = map (\<lambda>i. r0 (int i) (int i) 1 (Some 5) None i) [1..<Suc n]"

definition dbig :: db where
  "dbig = \<lparr> books = [bk 1], user_books = [], ratings = many_ratings 32768,
            fingerprints = [] \<rparr>"

text \<open>The fingerprint row of the sample book, as first stored at clock reading 1.\<close>

definition fp0 :: book_fingerprint where
  "fp0 = \<lparr> fp_book_id = 1, avg_pace = Some (14 / 3), avg_emotional_impact = Some 4,
           avg_complexity = None, avg_character_development = None, avg_plot_quality = None,
           avg_prose_style = None, avg_originality = None,
           fp_star_equivalent = Some (13 / 3), total_ratings = 3, fp_updated_at = 1 \<rparr>"

text \<open>
  Four books, stored in the order 1, 3, 2, 4. Books 2 and 3 carry the same fingerprint;
  the fingerprint of book 4 rests on two ratings only.
\<close>

definition fpr :: "int \<Rightarrow> real option \<Rightarrow> real option \<Rightarrow> int \<Rightarrow> book_fingerprint" where
  "fpr i p s n =
     \<lparr> fp_book_id = i, avg_pace = p, avg_emotional_impact = None, avg_complexity = None,
       avg_character_development = None, avg_plot_quality = None, avg_prose_style = None,
       avg_originality = None, fp_star_equivalent = s, total_ratings = n, fp_updated_at = 1 \<rparr>"

definition d4 :: db where
  "d4 = \<lparr> books = [bk 1, bk 3, bk 2, bk 4],
          user_books = [],
          ratings = [],
          fingerprints = [fpr 1 (Some 5) (Some 5) 3, fpr 3 (Some 4) (Some 4) 3,
                          fpr 2 (Some 4) (Some 4) 3, fpr 4 (Some 4) (Some 4) 2] \<rparr>"

text \<open>
  One user (10) with four ratings, stored in the order in which they were made, of the
  books 1 to 4, each with pace 5; book 1 is in the user's library as finished, and the
  books 5 and 6 have well-rated fingerprints.
\<close>

definition d8 :: db where
  "d8 = \<lparr> books = [bk 1, bk 2, bk 3, bk 4, bk 5, bk 6],
          user_books = [\<lparr> ub_user_id = 10, ub_book_id = 1, status = ''finished'' \<rparr>,
                        \<lparr> ub_user_id = 10, ub_book_id = 6, status = ''want_to_read'' \<rparr>],
          ratings = [r0 1 10 1 (Some 5) None 1, r0 2 10 2 (Some 5) None 2,
                     r0 3 10 3 (Some 5) None 3, r0 4 10 4 (Some 5) None 4],
          fingerprints = [fpr 1 (Some 5) (Some 5) 3, fpr 5 (Some 5) (Some 5) 12,
                          fpr 6 (Some 5) (Some 4) 11] \<rparr>"

text \<open>
  Two books with the same averages, an emotional impact of 4.2 and a complexity of 2;
  the fingerprint of book 1 rests on 3 ratings and that of book 2 on 5.
\<close>

definition fpm :: "int \<Rightarrow> int \<Rightarrow> book_fingerprint" where
  "fpm i n =
     \<lparr> fp_book_id = i, avg_pace = None, avg_emotional_impact = Some (21 / 5),
       avg_complexity = Some 2, avg_character_development = None, avg_plot_quality = None,
       avg_prose_style = None, avg_originality = None, fp_star_equivalent = Some (31 / 10),
       total_ratings = n, fp_updated_at = 1 \<rparr>"

definition d5 :: db where
  "d5 = \<lparr> books = [bk 1, bk 2], user_books = [], ratings = [],
          fingerprints = [fpm 1 3, fpm 2 5] \<rparr>"

text \<open>A request of user 10 for book 1 that sets the pace to 3 and nothing else.\<close>

definition rd0 :: rating_create where
  "rd0 = \<lparr> rc_book_id = 1, rc_pace = Some (Some 3), rc_emotional_impact = None,
           rc_complexity = None, rc_character_development = None, rc_plot_quality = None,
           rc_prose_style = None, rc_originality = None \<rparr>"

section \<open>Properties of the vector arithmetic\<close>

text \<open>
  Claim C9. \<^verbatim>\<open>cosine_similarity\<close> raises \<^verbatim>\<open>ValueError\<close> (the dimension-mismatch
  error) when the two vectors differ in length. On vectors of equal length it always
  returns a number: \<open>0\<close> when one of the magnitudes is zero, and otherwise the quotient
  of the dot product by the product of the magnitudes, a divisor that is not zero.
\<close>

theorem cosine_similarity_total:
  "(length vec1 \<noteq> length vec2 \<longrightarrow> cosine_similarity vec1 vec2 = Inl ValueError) \<and>
   (length vec1 = length vec2 \<longrightarrow>
      (\<exists>s. cosine_similarity vec1 vec2 = Inr s) \<and>
      (sqrt (\<Sum>a\<leftarrow>vec1. a * a) = 0 \<or> sqrt (\<Sum>b\<leftarrow>vec2. b * b) = 0 \<longrightarrow>
         cosine_similarity vec1 vec2 = Inr 0) \<and>
      (sqrt (\<Sum>a\<leftarrow>vec1. a * a) \<noteq> 0 \<and> sqrt (\<Sum>b\<leftarrow>vec2. b * b) \<noteq> 0 \<longrightarrow>
         sqrt (\<Sum>a\<leftarrow>vec1. a * a) * sqrt (\<Sum>b\<leftarrow>vec2. b * b) \<noteq> 0 \<and>
         cosine_similarity vec1 vec2 =
           Inr ((\<Sum>(a, b)\<leftarrow>zip vec1 vec2. a * b) /
                (sqrt (\<Sum>a\<leftarrow>vec1. a * a) * sqrt (\<Sum>b\<leftarrow>vec2. b * b)))))"
  by (simp add: cosine_similarity_def truediv_def Let_def)

theorem cosine_similarity_total_witness:
  "cosine_similarity [1] [1, 2] = Inl ValueError \<and>
   cosine_similarity [0, 0] [1, 2] = Inr 0 \<and>
   cosine_similarity [1, 0] [1, 0] = Inr 1"
  using cosine_similarity_total [of "[1]" "[1, 2]"]
        cosine_similarity_total [of "[0, 0]" "[1, 2]"]
        cosine_similarity_total [of "[1, 0]" "[1, 0]"]
  by simp


section \<open>Properties of the fingerprint aggregation\<close>

subsection \<open>The aggregates are means\<close>

lemma avg_acc_gen:
  "avg_acc col s n =
     (if n + length (non_null col) = 0 then None
      else Some (real_of_int (s + sum_list (non_null col)) / real (n + length (non_null col))))"
  by (induction col s n rule: avg_acc.induct) auto

lemma func_avg_eq:
  "func_avg col =
     (if non_null col = [] then None
      else Some (real_of_int (sum_list (non_null col)) / real (length (non_null col))))"
  by (simp add: func_avg_def avg_acc_gen)

lemma non_null_empty_iff: "non_null col = [] \<longleftrightarrow> list_all (\<lambda>x. x = None) col"
  by (induction col) (auto split: option.splits)

lemma length_non_null: "length (non_null col) = length (filter (\<lambda>x. x \<noteq> None) col)"
  by (induction col) (auto split: option.splits)

lemma sum_non_null_int: "sum_list (non_null col) = (\<Sum>x\<leftarrow>col. case x of None \<Rightarrow> (0::int) | Some v \<Rightarrow> v)"
  by (induction col) (auto split: option.splits)

lemma sum_non_null_real: "sum_list (non_null col) = (\<Sum>x\<leftarrow>col. case x of None \<Rightarrow> (0::real) | Some v \<Rightarrow> v)"
  by (induction col) (auto split: option.splits)

lemma func_avg_spec: "spec_mean_non_null col (func_avg col)"
proof (cases "non_null col = []")
  case True
  then show ?thesis
    by (simp add: spec_mean_non_null_def func_avg_eq non_null_empty_iff)
next
  case False
  then have "length (filter (\<lambda>x. x \<noteq> None) col) \<noteq> 0"
    by (simp only: length_non_null [symmetric]) simp
  with False show ?thesis
    unfolding spec_mean_non_null_def func_avg_eq
    by (simp only: length_non_null sum_non_null_int non_null_empty_iff) simp
qed

lemma mean_of_means_spec:
  "spec_mean_of_means ms (if non_null ms \<noteq> [] then Some (sum_list (non_null ms) / real (length (non_null ms))) else None)"
proof (cases "non_null ms = []")
  case True
  then show ?thesis
    by (simp add: spec_mean_of_means_def non_null_empty_iff)
next
  case False
  then have "length (filter (\<lambda>x. x \<noteq> None) ms) \<noteq> 0"
    by (simp only: length_non_null [symmetric]) simp
  with False show ?thesis
    unfolding spec_mean_of_means_def
    by (simp only: length_non_null sum_non_null_real non_null_empty_iff) simp
qed


subsection \<open>The row written by a recomputation\<close>

lemma filter_key_distinct:
  "distinct (map key rows) \<Longrightarrow>
     filter (\<lambda>x. key x = k) rows = [] \<or> (\<exists>x. filter (\<lambda>x. key x = k) rows = [x])"
proof (induction rows)
  case Nil
  then show ?case by simp
next
  case (Cons a rows)
  show ?case
  proof (cases "key a = k")
    case True
    with Cons.prems have "\<forall>x\<in>set rows. key x \<noteq> k" by (auto simp: image_iff)
    then have "filter (\<lambda>x. key x = k) rows = []" by (simp add: filter_empty_conv)
    with True show ?thesis by simp
  next
    case False
    with Cons show ?thesis by simp
  qed
qed

lemma filter_key_replace:
  assumes "filter (\<lambda>x. key x = k) rows = [old]" and "key new = k"
  shows "filter (\<lambda>x. key x = k) (map (\<lambda>x. if key x = k then new else x) rows) = [new]"
  using assms
proof (induction rows)
  case Nil
  then show ?case by simp
next
  case (Cons a rows)
  show ?case
  proof (cases "key a = k")
    case True
    with Cons.prems have e: "filter (\<lambda>x. key x = k) rows = []" by simp
    then have "\<forall>x\<in>set rows. key x \<noteq> k" by (simp add: filter_empty_conv)
    then have "map (\<lambda>x. if key x = k then new else x) rows = rows" by (simp add: map_idI)
    with True e Cons.prems show ?thesis by simp
  next
    case False
    with Cons show ?thesis by simp
  qed
qed

lemma map_key_replace:
  assumes "key new = k"
  shows "map key (map (\<lambda>x. if key x = k then new else x) rows) = map key rows"
  using assms by (induction rows) auto

lemma total_of_stats:
  "s_total_ratings (stats_query d book_id) =
     int (length (filter (\<lambda>r. r_book_id r = book_id) (ratings d)))"
  by (simp add: stats_query_def Let_def func_count_def)

lemma not_modified_fields:
  assumes "\<not> is_modified old st"
  shows "avg_pace old = s_avg_pace st" "avg_emotional_impact old = s_avg_emotional_impact st"
    "avg_complexity old = s_avg_complexity st"
    "avg_character_development old = s_avg_character_development st"
    "avg_plot_quality old = s_avg_plot_quality st" "avg_prose_style old = s_avg_prose_style st"
    "avg_originality old = s_avg_originality st" "fp_star_equivalent old = star_of_stats st"
    "total_ratings old = s_total_ratings st"
  using assms by (simp_all add: is_modified_def net_change_def)

lemma update_book_fingerprint_row:
  assumes pk: "distinct (map fp_book_id (fingerprints d))"
      and fk: "book_id \<in> b_id ` set (books d)"
      and small: "s_total_ratings (stats_query d book_id) \<le> 32767"
  shows "\<exists>d' fp. update_book_fingerprint d book_id now = Inr (d', fp) \<and>
           ratings d' = ratings d \<and> books d' = books d \<and> user_books d' = user_books d \<and>
           distinct (map fp_book_id (fingerprints d')) \<and>
           filter (\<lambda>f. fp_book_id f = book_id) (fingerprints d') = [fp] \<and>
           fp_book_id fp = book_id \<and>
           avg_pace fp = s_avg_pace (stats_query d book_id) \<and>
           avg_emotional_impact fp = s_avg_emotional_impact (stats_query d book_id) \<and>
           avg_complexity fp = s_avg_complexity (stats_query d book_id) \<and>
           avg_character_development fp = s_avg_character_development (stats_query d book_id) \<and>
           avg_plot_quality fp = s_avg_plot_quality (stats_query d book_id) \<and>
           avg_prose_style fp = s_avg_prose_style (stats_query d book_id) \<and>
           avg_originality fp = s_avg_originality (stats_query d book_id) \<and>
           fp_star_equivalent fp = star_of_stats (stats_query d book_id) \<and>
           total_ratings fp = s_total_ratings (stats_query d book_id) \<and>
           (filter (\<lambda>f. fp_book_id f = book_id) (fingerprints d) = [] \<longrightarrow>
              fp_updated_at fp = now) \<and>
           (\<forall>old. filter (\<lambda>f. fp_book_id f = book_id) (fingerprints d) = [old] \<longrightarrow>
              fp_updated_at fp =
                (if is_modified old (stats_query d book_id) then now else fp_updated_at old))"
proof -
  let ?st = "stats_query d book_id"
  from filter_key_distinct [OF pk, of book_id]
  consider (absent) "filter (\<lambda>f. fp_book_id f = book_id) (fingerprints d) = []"
    | (present) old where "filter (\<lambda>f. fp_book_id f = book_id) (fingerprints d) = [old]"
    by blast
  then show ?thesis
  proof cases
    case absent
    then have "\<forall>f\<in>set (fingerprints d). fp_book_id f \<noteq> book_id"
      by (simp add: filter_empty_conv)
    then have "book_id \<notin> fp_book_id ` set (fingerprints d)" by auto
    with absent pk fk small show ?thesis
      by (simp add: update_book_fingerprint_def scalar_one_or_none_def Let_def)
  next
    case present
    from present have "old \<in> set (filter (\<lambda>f. fp_book_id f = book_id) (fingerprints d))" by simp
    then have kold: "fp_book_id old = book_id" by simp
    show ?thesis
    proof (cases "is_modified old ?st")
      case False
      have res: "update_book_fingerprint d book_id now = Inr (d, old)"
        using False by (simp add: update_book_fingerprint_def scalar_one_or_none_def Let_def present)
      show ?thesis
        unfolding res using not_modified_fields [OF False] present pk kold False by simp
    next
      case True
      define new where "new = old
                   \<lparr> avg_pace := s_avg_pace ?st,
                     avg_emotional_impact := s_avg_emotional_impact ?st,
                     avg_complexity := s_avg_complexity ?st,
                     avg_character_development := s_avg_character_development ?st,
                     avg_plot_quality := s_avg_plot_quality ?st,
                     avg_prose_style := s_avg_prose_style ?st,
                     avg_originality := s_avg_originality ?st,
                     fp_star_equivalent := star_of_stats ?st,
                     total_ratings := s_total_ratings ?st,
                     fp_updated_at := now \<rparr>"
      have knew: "fp_book_id new = book_id" by (simp add: new_def kold)
      have res: "update_book_fingerprint d book_id now =
                   Inr (d \<lparr> fingerprints := map (\<lambda>f. if fp_book_id f = book_id then new else f)
                                              (fingerprints d) \<rparr>, new)"
        using True small
        by (simp add: update_book_fingerprint_def scalar_one_or_none_def Let_def present new_def)
      have f1: "filter (\<lambda>f. fp_book_id f = book_id)
                  (map (\<lambda>f. if fp_book_id f = book_id then new else f) (fingerprints d)) = [new]"
        by (rule filter_key_replace [OF present knew])
      have f2: "distinct (map fp_book_id
                  (map (\<lambda>f. if fp_book_id f = book_id then new else f) (fingerprints d)))"
        using map_key_replace [of fp_book_id new book_id "fingerprints d", OF knew] pk
        by (simp only:)
      show ?thesis
        unfolding res using f1 f2 knew True present by (simp add: new_def del: map_map)
    qed
  qed
qed

lemma star_of_stats_spec:
  "spec_mean_of_means [s_avg_pace st, s_avg_emotional_impact st, s_avg_complexity st,
       s_avg_character_development st, s_avg_plot_quality st, s_avg_prose_style st,
       s_avg_originality st] (star_of_stats st)"
  unfolding star_of_stats_def Let_def by (rule mean_of_means_spec)

lemma binary_fraction_of_int: "binary_fraction (real_of_int n)"
proof -
  have "(0::nat) \<in> set [0..<1075]" by (simp only: set_upt) simp
  moreover have "real_of_int \<lfloor>real_of_int n * 2 ^ (0::nat)\<rfloor> = real_of_int n * 2 ^ (0::nat)"
    by simp
  ultimately show ?thesis
    unfolding binary_fraction_def list_ex_iff by (rule bexI [rotated])
qed

lemma binary_fraction_5: "binary_fraction 5"
  using binary_fraction_of_int [of 5] by simp

lemma binary_fraction_4: "binary_fraction 4"
  using binary_fraction_of_int [of 4] by simp

lemma not_binary_thirds:
  assumes "\<not> 3 dvd a"
  shows "\<not> binary_fraction (real_of_int a / 3)"
proof
  assume "binary_fraction (real_of_int a / 3)"
  then obtain k where "real_of_int \<lfloor>real_of_int a / 3 * 2 ^ k\<rfloor> = real_of_int a / 3 * 2 ^ k"
    unfolding binary_fraction_def list_ex_iff by blast
  then obtain n :: int where "real_of_int n = real_of_int a / 3 * 2 ^ k" by blast
  then have "real_of_int a * 2 ^ k = 3 * real_of_int n" by (simp add: field_simps)
  then have "real_of_int (a * 2 ^ k) = real_of_int (3 * n)" by simp
  then have "a * 2 ^ k = 3 * n" by (simp only: of_int_eq_iff)
  then have "3 dvd a * 2 ^ k" by simp
  moreover have "coprime (3::int) (2 ^ k)" by simp
  ultimately have "3 dvd a" by (simp add: coprime_dvd_mult_left_iff)
  with assms show False by simp
qed

lemma not_binary_14_3: "\<not> binary_fraction (14 / 3)"
  using not_binary_thirds [of 14] by simp

lemma not_binary_13_3: "\<not> binary_fraction (13 / 3)"
  using not_binary_thirds [of 13] by simp

subsection \<open>Recomputation stores the means\<close>

text \<open>
  Claim C1, as amended. For a book of the database with at most 32767 ratings, the
  fingerprint table respecting its primary key, the recomputation succeeds, leaves the
  ratings as they are and leaves exactly one fingerprint row for the book. With \<open>R\<close>
  the ratings of the book, each of the seven stored averages is the arithmetic mean of
  the values of that dimension in \<open>R\<close> that are not null (null when no rating sets the
  dimension), the stored star equivalent is the mean of the stored averages that are not
  null, and the stored count is the number of ratings in \<open>R\<close>; with no rating the star
  equivalent is null and the count is 0.
\<close>

theorem update_book_fingerprint_aggregates:
  assumes "distinct (map fp_book_id (fingerprints d))"
      and "book_id \<in> b_id ` set (books d)"
      and "length (filter (\<lambda>r. r_book_id r = book_id) (ratings d)) \<le> 32767"
  shows "let R = filter (\<lambda>r. r_book_id r = book_id) (ratings d) in
         \<exists>d' fp. update_book_fingerprint d book_id now = Inr (d', fp) \<and>
           ratings d' = ratings d \<and>
           filter (\<lambda>f. fp_book_id f = book_id) (fingerprints d') = [fp] \<and>
           spec_mean_non_null (map pace R) (avg_pace fp) \<and>
           spec_mean_non_null (map emotional_impact R) (avg_emotional_impact fp) \<and>
           spec_mean_non_null (map complexity R) (avg_complexity fp) \<and>
           spec_mean_non_null (map character_development R) (avg_character_development fp) \<and>
           spec_mean_non_null (map plot_quality R) (avg_plot_quality fp) \<and>
           spec_mean_non_null (map prose_style R) (avg_prose_style fp) \<and>
           spec_mean_non_null (map originality R) (avg_originality fp) \<and>
           spec_mean_of_means
             [avg_pace fp, avg_emotional_impact fp, avg_complexity fp,
              avg_character_development fp, avg_plot_quality fp, avg_prose_style fp,
              avg_originality fp] (fp_star_equivalent fp) \<and>
           total_ratings fp = int (length R) \<and>
           (R = [] \<longrightarrow> fp_star_equivalent fp = None \<and> total_ratings fp = 0)"
proof -
  from assms(3) have small: "s_total_ratings (stats_query d book_id) \<le> 32767"
    by (simp add: total_of_stats)
  from update_book_fingerprint_row [OF assms(1,2) small, of now]
  obtain d' fp where
    res: "update_book_fingerprint d book_id now = Inr (d', fp)"
    and fr: "ratings d' = ratings d"
      "filter (\<lambda>f. fp_book_id f = book_id) (fingerprints d') = [fp]"
    and av: "avg_pace fp = s_avg_pace (stats_query d book_id)"
      "avg_emotional_impact fp = s_avg_emotional_impact (stats_query d book_id)"
      "avg_complexity fp = s_avg_complexity (stats_query d book_id)"
      "avg_character_development fp = s_avg_character_development (stats_query d book_id)"
      "avg_plot_quality fp = s_avg_plot_quality (stats_query d book_id)"
      "avg_prose_style fp = s_avg_prose_style (stats_query d book_id)"
      "avg_originality fp = s_avg_originality (stats_query d book_id)"
    and st: "fp_star_equivalent fp = star_of_stats (stats_query d book_id)"
    and tot: "total_ratings fp = s_total_ratings (stats_query d book_id)"
    by blast
  let ?R = "filter (\<lambda>r. r_book_id r = book_id) (ratings d)"
  have m: "spec_mean_non_null (map pace ?R) (avg_pace fp)"
    "spec_mean_non_null (map emotional_impact ?R) (avg_emotional_impact fp)"
    "spec_mean_non_null (map complexity ?R) (avg_complexity fp)"
    "spec_mean_non_null (map character_development ?R) (avg_character_development fp)"
    "spec_mean_non_null (map plot_quality ?R) (avg_plot_quality fp)"
    "spec_mean_non_null (map prose_style ?R) (avg_prose_style fp)"
    "spec_mean_non_null (map originality ?R) (avg_originality fp)"
    by (simp_all add: av stats_query_def Let_def func_avg_spec)
  have s: "spec_mean_of_means
             [avg_pace fp, avg_emotional_impact fp, avg_complexity fp,
              avg_character_development fp, avg_plot_quality fp, avg_prose_style fp,
              avg_originality fp] (fp_star_equivalent fp)"
    unfolding av st by (rule star_of_stats_spec)
  have t: "total_ratings fp = int (length ?R)"
    by (simp add: tot total_of_stats)
  have e: "?R = [] \<longrightarrow> fp_star_equivalent fp = None \<and> total_ratings fp = 0"
    by (simp add: st tot stats_query_def Let_def func_count_def func_avg_def star_of_stats_def)
  from res fr m s t e show ?thesis
    unfolding Let_def by blast
qed

theorem update_book_fingerprint_aggregates_witness:
  "distinct (map fp_book_id (fingerprints d0)) \<and> 1 \<in> b_id ` set (books d0) \<and>
   length (filter (\<lambda>r. r_book_id r = 1) (ratings d0)) \<le> 32767 \<and>
   update_book_fingerprint d0 1 1 = Inr (d0 \<lparr> fingerprints := [fp0] \<rparr>, fp0) \<and>
   spec_mean_non_null [Some 5, Some 5, Some 4] (Some (14 / 3)) \<and>
   spec_mean_non_null [Some 4, None, None] (Some 4) \<and>
   spec_mean_non_null [None, None, None] None \<and>
   spec_mean_of_means [Some (14 / 3), Some 4, None, None, None, None, None] (Some (13 / 3))"
  using update_book_fingerprint_aggregates [of d0 1 1]
  by (simp add: d0_def r0_def bk_def fp0_def update_book_fingerprint_def scalar_one_or_none_def
        stats_query_def star_of_stats_def func_avg_def func_count_def
        spec_mean_non_null_def spec_mean_of_means_def Let_def)

lemma dbig_facts:
  "books dbig = [bk 1]" "fingerprints dbig = []"
  "filter (\<lambda>r. r_book_id r = 1) (ratings dbig) = ratings dbig"
  "length (ratings dbig) = 32768"
  by (simp_all add: dbig_def many_ratings_def r0_def filter_map o_def
        del: upt_Suc upt_rec_numeral)

lemma dbig_rejected: "update_book_fingerprint dbig 1 now = Inl DBAPIError"
proof -
  have t: "s_total_ratings (stats_query dbig 1) = 32768"
    by (simp only: total_of_stats dbig_facts)
  show ?thesis
    by (simp add: update_book_fingerprint_def Let_def dbig_facts t scalar_one_or_none_def bk_def)
qed

text \<open>
  Claim C1 as stated holds for every set of ratings. With the 32768 ratings of the large
  sample the count no longer fits the column: the commit raises and no row is stored.
\<close>

theorem update_book_fingerprint_count_counterexample:
  "distinct (map fp_book_id (fingerprints dbig)) \<and> 1 \<in> b_id ` set (books dbig) \<and>
   length (filter (\<lambda>r. r_book_id r = 1) (ratings dbig)) = 32768 \<and>
   update_book_fingerprint dbig 1 1 = Inl DBAPIError"
  by (simp add: dbig_facts dbig_rejected bk_def)


subsection \<open>Recomputing twice\<close>

lemma stored_not_modified:
  assumes "avg_pace fp = s_avg_pace st" "avg_emotional_impact fp = s_avg_emotional_impact st"
    "avg_complexity fp = s_avg_complexity st"
    "avg_character_development fp = s_avg_character_development st"
    "avg_plot_quality fp = s_avg_plot_quality st" "avg_prose_style fp = s_avg_prose_style st"
    "avg_originality fp = s_avg_originality st" "fp_star_equivalent fp = star_of_stats st"
    "total_ratings fp = s_total_ratings st"
  shows "is_modified fp st \<longleftrightarrow> \<not> exactly_stored fp"
  using assms by (auto simp: is_modified_def net_change_def exactly_stored_def)

text \<open>
  Claim C7, as amended. For a book with at most 32767 ratings, two recomputations in a
  row, with no change of the ratings in between, both succeed, and the second row equals
  the first in the book id, the seven averages, the star equivalent and the rating
  count. When every average of the row and its star equivalent is null or a binary
  fraction, the second run writes nothing and the rows are equal in \<^verbatim>\<open>updated_at\<close> too;
  otherwise the second row carries the clock reading of the second run.
\<close>

theorem recompute_twice_fields:
  assumes "distinct (map fp_book_id (fingerprints d))"
      and "book_id \<in> b_id ` set (books d)"
      and "length (filter (\<lambda>r. r_book_id r = book_id) (ratings d)) \<le> 32767"
  shows "\<exists>fp. recompute_twice d book_id t1 t2 =
                Inr (fp, if exactly_stored fp then fp else fp \<lparr> fp_updated_at := t2 \<rparr>)"
proof -
  let ?st = "stats_query d book_id"
  from assms(3) have small: "s_total_ratings ?st \<le> 32767"
    by (simp add: total_of_stats)
  from update_book_fingerprint_row [OF assms(1,2) small, of t1]
  obtain da fpa where
    r1: "update_book_fingerprint d book_id t1 = Inr (da, fpa)"
    and fr: "ratings da = ratings d" "books da = books d"
      "distinct (map fp_book_id (fingerprints da))"
      "filter (\<lambda>f. fp_book_id f = book_id) (fingerprints da) = [fpa]"
    and k1: "fp_book_id fpa = book_id"
    and f1: "avg_pace fpa = s_avg_pace ?st"
      "avg_emotional_impact fpa = s_avg_emotional_impact ?st"
      "avg_complexity fpa = s_avg_complexity ?st"
      "avg_character_development fpa = s_avg_character_development ?st"
      "avg_plot_quality fpa = s_avg_plot_quality ?st"
      "avg_prose_style fpa = s_avg_prose_style ?st"
      "avg_originality fpa = s_avg_originality ?st"
      "fp_star_equivalent fpa = star_of_stats ?st"
      "total_ratings fpa = s_total_ratings ?st"
    by blast
  have same: "stats_query da book_id = ?st"
    by (simp add: stats_query_def fr)
  from fr assms have fka: "book_id \<in> b_id ` set (books da)" by simp
  from small same have smalla: "s_total_ratings (stats_query da book_id) \<le> 32767" by simp
  from update_book_fingerprint_row [OF fr(3) fka smalla, of t2]
  obtain db fpb where
    r2: "update_book_fingerprint da book_id t2 = Inr (db, fpb)"
    and k2: "fp_book_id fpb = book_id"
    and f2: "avg_pace fpb = s_avg_pace ?st"
      "avg_emotional_impact fpb = s_avg_emotional_impact ?st"
      "avg_complexity fpb = s_avg_complexity ?st"
      "avg_character_development fpb = s_avg_character_development ?st"
      "avg_plot_quality fpb = s_avg_plot_quality ?st"
      "avg_prose_style fpb = s_avg_prose_style ?st"
      "avg_originality fpb = s_avg_originality ?st"
      "fp_star_equivalent fpb = star_of_stats ?st"
      "total_ratings fpb = s_total_ratings ?st"
    and u2: "\<forall>old. filter (\<lambda>f. fp_book_id f = book_id) (fingerprints da) = [old] \<longrightarrow>
              fp_updated_at fpb =
                (if is_modified old (stats_query da book_id) then t2 else fp_updated_at old)"
    unfolding same by blast
  from u2 fr(4) have "fp_updated_at fpb = (if is_modified fpa ?st then t2 else fp_updated_at fpa)"
    unfolding same by simp
  then have u: "fp_updated_at fpb = (if exactly_stored fpa then fp_updated_at fpa else t2)"
    unfolding stored_not_modified [OF f1] by simp
  have "fpb = (if exactly_stored fpa then fpa else fpa \<lparr> fp_updated_at := t2 \<rparr>)"
    by (rule book_fingerprint.equality) (simp_all add: f1 f2 k1 k2 u)
  with r1 r2 show ?thesis
    by (simp add: recompute_twice_def)
qed

theorem recompute_twice_fields_witness:
  "distinct (map fp_book_id (fingerprints d1)) \<and> 1 \<in> b_id ` set (books d1) \<and>
   length (filter (\<lambda>r. r_book_id r = 1) (ratings d1)) \<le> 32767 \<and>
   exactly_stored fp1 \<and> recompute_twice d1 1 1 2 = Inr (fp1, fp1) \<and>
   distinct (map fp_book_id (fingerprints d0)) \<and> 1 \<in> b_id ` set (books d0) \<and>
   length (filter (\<lambda>r. r_book_id r = 1) (ratings d0)) \<le> 32767 \<and>
   \<not> exactly_stored fp0 \<and> recompute_twice d0 1 1 2 = Inr (fp0, fp0 \<lparr> fp_updated_at := 2 \<rparr>)"
proof -
  have h1: "distinct (map fp_book_id (fingerprints d1))" "1 \<in> b_id ` set (books d1)"
    "length (filter (\<lambda>r. r_book_id r = 1) (ratings d1)) \<le> 32767"
    by (simp_all add: d1_def bk_def r0_def)
  have h0: "distinct (map fp_book_id (fingerprints d0))" "1 \<in> b_id ` set (books d0)"
    "length (filter (\<lambda>r. r_book_id r = 1) (ratings d0)) \<le> 32767"
    by (simp_all add: d0_def bk_def r0_def)
  have x1: "exactly_stored fp1"
    by (simp add: exactly_stored_def fp1_def binary_or_null_def binary_fraction_5)
  have x0: "\<not> exactly_stored fp0"
    by (simp add: exactly_stored_def fp0_def binary_or_null_def not_binary_14_3)
  have a1: "update_book_fingerprint d1 1 1 = Inr (d1 \<lparr> fingerprints := [fp1] \<rparr>, fp1)"
    by (simp add: d1_def r0_def bk_def fp1_def update_book_fingerprint_def scalar_one_or_none_def
        stats_query_def star_of_stats_def func_avg_def func_count_def Let_def)
  have a0: "update_book_fingerprint d0 1 1 = Inr (d0 \<lparr> fingerprints := [fp0] \<rparr>, fp0)"
    by (simp add: d0_def r0_def bk_def fp0_def update_book_fingerprint_def scalar_one_or_none_def
        stats_query_def star_of_stats_def func_avg_def func_count_def Let_def)
  from recompute_twice_fields [OF h1, of 1 2]
  obtain fp where e1: "recompute_twice d1 1 1 2 =
      Inr (fp, if exactly_stored fp then fp else fp \<lparr> fp_updated_at := 2 \<rparr>)" by blast
  then have "fp = fp1"
    unfolding recompute_twice_def a1 by (simp split: sum.splits prod.splits)
  with e1 x1 have r1: "recompute_twice d1 1 1 2 = Inr (fp1, fp1)" by simp
  from recompute_twice_fields [OF h0, of 1 2]
  obtain fp' where e0: "recompute_twice d0 1 1 2 =
      Inr (fp', if exactly_stored fp' then fp' else fp' \<lparr> fp_updated_at := 2 \<rparr>)" by blast
  then have "fp' = fp0"
    unfolding recompute_twice_def a0 by (simp split: sum.splits prod.splits)
  with e0 x0 have r0: "recompute_twice d0 1 1 2 = Inr (fp0, fp0 \<lparr> fp_updated_at := 2 \<rparr>)" by simp
  from h1 h0 x1 x0 r1 r0 show ?thesis by simp
qed

text \<open>
  Claim C7 as stated asks, for every book, for a second row equal to the first in every
  stored field. The sample book has the paces 5, 5 and 4: the average 14/3 is no binary
  fraction, the second run finds the assigned average different from the stored double
  and writes the row again, and the two rows differ in \<^verbatim>\<open>updated_at\<close>. For the book
  with 32768 ratings the first run already raises, and there is no row.
\<close>

theorem recompute_twice_counterexample:
  "recompute_twice d0 1 1 2 = Inr (fp0, fp0 \<lparr> fp_updated_at := 2 \<rparr>) \<and>
   fp0 \<noteq> fp0 \<lparr> fp_updated_at := 2 \<rparr> \<and>
   recompute_twice dbig 1 1 2 = Inl DBAPIError"
proof -
  have a0: "update_book_fingerprint d0 1 1 = Inr (d0 \<lparr> fingerprints := [fp0] \<rparr>, fp0)"
    by (simp add: d0_def r0_def bk_def fp0_def update_book_fingerprint_def scalar_one_or_none_def
        stats_query_def star_of_stats_def func_avg_def func_count_def Let_def)
  have m: "is_modified fp0 (stats_query (d0 \<lparr> fingerprints := [fp0] \<rparr>) 1)"
    by (simp add: is_modified_def net_change_def binary_or_null_def fp0_def stats_query_def
        d0_def r0_def func_avg_def Let_def not_binary_14_3)
  have b0: "update_book_fingerprint (d0 \<lparr> fingerprints := [fp0] \<rparr>) 1 2 =
              Inr (d0 \<lparr> fingerprints := [fp0 \<lparr> fp_updated_at := 2 \<rparr>] \<rparr>, fp0 \<lparr> fp_updated_at := 2 \<rparr>)"
    using m
    by (simp add: update_book_fingerprint_def scalar_one_or_none_def Let_def)
       (simp add: d0_def r0_def bk_def fp0_def stats_query_def star_of_stats_def func_avg_def
          func_count_def Let_def)
  have "fp0 \<noteq> fp0 \<lparr> fp_updated_at := 2 \<rparr>" by (simp add: fp0_def)
  moreover have "recompute_twice dbig 1 1 2 = Inl DBAPIError"
    unfolding recompute_twice_def dbig_rejected by simp
  ultimately show ?thesis using a0 b0 by (simp add: recompute_twice_def)
qed

section \<open>Properties of the similarity search\<close>

lemma length_fingerprint_vector: "length (fingerprint_vector f) = 7"
  by (simp add: fingerprint_vector_def)

lemma cosine_similarity_same_length:
  "length v = length w \<Longrightarrow> \<exists>s. cosine_similarity v w = Inr s"
  by (simp add: cosine_similarity_def truediv_def Let_def)

lemma score_fingerprints_total:
  "length t = 7 \<Longrightarrow>
     \<exists>scored. score_fingerprints t rows = Inr scored \<and>
       list_all2 (\<lambda>(b, s) (b', f). b = b' \<and> cosine_similarity t (fingerprint_vector f) = Inr s)
         scored rows"
proof (induction rows)
  case Nil
  then show ?case by simp
next
  case (Cons r rows)
  obtain b f where r: "r = (b, f)" by (cases r)
  from Cons.prems cosine_similarity_same_length [of t "fingerprint_vector f"]
  obtain s where s: "cosine_similarity t (fingerprint_vector f) = Inr s"
    by (auto simp: length_fingerprint_vector)
  from Cons obtain scored where
    "score_fingerprints t rows = Inr scored"
    "list_all2 (\<lambda>(b, s) (b', f). b = b' \<and> cosine_similarity t (fingerprint_vector f) = Inr s)
         scored rows"
    by blast
  with r s show ?case by simp
qed

lemma list_all2_fst_eq:
  "list_all2 (\<lambda>(b, s) (b', f). b = b' \<and> Q s f) scored rows \<Longrightarrow> map fst scored = map fst rows"
  by (induction scored rows rule: list_all2_induct) auto

lemma set_slice_to: "set (slice_to xs n) \<subseteq> set xs"
  by (auto simp: slice_to_def dest: in_set_takeD)

lemma set_rank_and_take: "set (rank_and_take cs limit) \<subseteq> fst ` set cs"
proof -
  have "set (slice_to (sort_key (\<lambda>x. - snd x) cs) limit) \<subseteq> set cs"
    using set_slice_to [of "sort_key (\<lambda>x. - snd x) cs" limit] by simp
  then show ?thesis by (auto simp: rank_and_take_def)
qed

lemma fingerprint_query_row:
  assumes "(b, f) \<in> set (fingerprint_query d book_id exclude_book_ids)"
  shows "f \<in> set (fingerprints d) \<and> fp_book_id f = b_id b \<and> 3 \<le> total_ratings f \<and>
         b_id b \<noteq> book_id \<and> b_id b \<notin> set (given_ids exclude_book_ids)"
  using assms
  by (auto simp: fingerprint_query_def books_join_fingerprints_def Let_def split: if_splits)

lemma similar_by_fingerprint_props:
  assumes "distinct (map fp_book_id (fingerprints d))"
  shows "(\<exists>bs. get_similar_books_by_fingerprint d book_id limit exclude_book_ids = Inr bs) \<and>
         ((\<forall>f\<in>set (fingerprints d). fp_book_id f = book_id \<longrightarrow> total_ratings f < 3) \<longrightarrow>
            get_similar_books_by_fingerprint d book_id limit exclude_book_ids = Inr []) \<and>
         (\<forall>bs. get_similar_books_by_fingerprint d book_id limit exclude_book_ids = Inr bs \<longrightarrow>
            (\<forall>b\<in>set bs.
               (\<exists>f\<in>set (fingerprints d). fp_book_id f = b_id b \<and> 3 \<le> total_ratings f) \<and>
               b_id b \<noteq> book_id \<and> b_id b \<notin> set (given_ids exclude_book_ids)))"
proof -
  let ?rows = "filter (\<lambda>f. fp_book_id f = book_id) (fingerprints d)"
  let ?q = "fingerprint_query d book_id exclude_book_ids"
  from filter_key_distinct [OF assms, of book_id]
  consider (absent) "?rows = []" | (present) target_fp where "?rows = [target_fp]"
    by blast
  then show ?thesis
  proof cases
    case absent
    then show ?thesis
      by (simp add: get_similar_books_by_fingerprint_def scalar_one_or_none_def)
  next
    case present
    then have "target_fp \<in> set ?rows" by simp
    then have mem: "target_fp \<in> set (fingerprints d)" "fp_book_id target_fp = book_id" by simp_all
    show ?thesis
    proof (cases "total_ratings target_fp < 3")
      case True
      with present show ?thesis
        by (simp add: get_similar_books_by_fingerprint_def scalar_one_or_none_def)
    next
      case False
      from score_fingerprints_total [OF length_fingerprint_vector, of target_fp ?q]
      obtain scored where
        sc: "score_fingerprints (fingerprint_vector target_fp) ?q = Inr scored"
        and al: "list_all2 (\<lambda>(b, s) (b', f). b = b' \<and>
                   cosine_similarity (fingerprint_vector target_fp) (fingerprint_vector f) = Inr s)
                   scored ?q"
        by blast
      have res: "get_similar_books_by_fingerprint d book_id limit exclude_book_ids =
                   Inr (rank_and_take scored limit)"
        using present False sc
        by (simp add: get_similar_books_by_fingerprint_def scalar_one_or_none_def)
      have fst_eq: "fst ` set scored = fst ` set ?q"
        using list_all2_fst_eq [OF al] by (metis set_map)
      have p: "(\<exists>f\<in>set (fingerprints d). fp_book_id f = b_id b \<and> 3 \<le> total_ratings f) \<and>
               b_id b \<noteq> book_id \<and> b_id b \<notin> set (given_ids exclude_book_ids)"
        if "b \<in> set (rank_and_take scored limit)" for b
      proof -
        from that set_rank_and_take [of scored limit] fst_eq
        obtain f where "(b, f) \<in> set ?q" by force
        from fingerprint_query_row [OF this] show ?thesis by blast
      qed
      from False mem have n: "\<not> (\<forall>f\<in>set (fingerprints d). fp_book_id f = book_id \<longrightarrow> total_ratings f < 3)"
        by blast
      from res p have "\<forall>bs. get_similar_books_by_fingerprint d book_id limit exclude_book_ids = Inr bs \<longrightarrow>
            (\<forall>b\<in>set bs.
               (\<exists>f\<in>set (fingerprints d). fp_book_id f = b_id b \<and> 3 \<le> total_ratings f) \<and>
               b_id b \<noteq> book_id \<and> b_id b \<notin> set (given_ids exclude_book_ids))"
        by simp
      with res n show ?thesis by blast
    qed
  qed
qed

text \<open>
  Claim C3. With the primary key of the fingerprint table respected, the fingerprint
  search always returns a list. The list is empty when the anchor has no fingerprint or
  one with fewer than 3 ratings. Every returned book has a fingerprint with at least 3
  ratings, is not the anchor and is not among the excluded ids.
\<close>

theorem get_similar_books_by_fingerprint_floor:
  assumes "distinct (map fp_book_id (fingerprints d))"
  shows "(\<exists>bs. get_similar_books_by_fingerprint d book_id limit exclude_book_ids = Inr bs) \<and>
         ((\<forall>f\<in>set (fingerprints d). fp_book_id f = book_id \<longrightarrow> total_ratings f < 3) \<longrightarrow>
            get_similar_books_by_fingerprint d book_id limit exclude_book_ids = Inr []) \<and>
         (\<forall>bs. get_similar_books_by_fingerprint d book_id limit exclude_book_ids = Inr bs \<longrightarrow>
            (\<forall>b\<in>set bs.
               (\<exists>f\<in>set (fingerprints d). fp_book_id f = b_id b \<and> 3 \<le> total_ratings f) \<and>
               b_id b \<noteq> book_id \<and> b_id b \<notin> set (given_ids exclude_book_ids)))"
  using assms by (rule similar_by_fingerprint_props)

theorem get_similar_books_by_fingerprint_floor_witness:
  "distinct (map fp_book_id (fingerprints d4)) \<and>
   get_similar_books_by_fingerprint d4 4 10 None = Inr [] \<and>
   get_similar_books_by_fingerprint d4 7 10 None = Inr [] \<and>
   get_similar_books_by_fingerprint d4 1 10 (Some [2]) = Inr [bk 3]"
proof -
  have pk: "distinct (map fp_book_id (fingerprints d4))"
    by (simp add: d4_def fpr_def)
  have e1: "get_similar_books_by_fingerprint d4 4 10 None = Inr []"
    by (simp add: d4_def bk_def fpr_def get_similar_books_by_fingerprint_def scalar_one_or_none_def)
  have e2: "get_similar_books_by_fingerprint d4 7 10 None = Inr []"
    by (simp add: d4_def bk_def fpr_def get_similar_books_by_fingerprint_def scalar_one_or_none_def)
  have e3: "get_similar_books_by_fingerprint d4 1 10 (Some [2]) = Inr [bk 3]"
    by (simp add: d4_def bk_def fpr_def get_similar_books_by_fingerprint_def scalar_one_or_none_def
        fingerprint_query_def books_join_fingerprints_def given_ids_def fingerprint_vector_def
        or_neutral_def cosine_similarity_def truediv_def rank_and_take_def slice_to_def Let_def)
  from get_similar_books_by_fingerprint_floor [OF pk, of 4 10 None]
       get_similar_books_by_fingerprint_floor [OF pk, of 1 10 "Some [2]"]
       pk e1 e2 e3
  show ?thesis by blast
qed


subsection \<open>The order of the results\<close>

lemma sorted_uminus_rev: "sorted (map (\<lambda>x. - snd x) xs) \<Longrightarrow> sorted (rev (map snd (xs :: ('a \<times> real) list)))"
proof -
  assume "sorted (map (\<lambda>x. - snd x) xs)"
  then have "sorted_wrt (\<lambda>x y. - snd x \<le> - snd y) xs" by (simp add: sorted_map)
  then have "sorted_wrt (\<lambda>x y. snd y \<le> snd x) xs" by simp
  then have "sorted_wrt (\<lambda>x y. y \<le> x) (map snd xs)" by (simp add: sorted_wrt_map)
  then show ?thesis by (simp add: sorted_wrt_rev)
qed

lemma sort_key_stable_descending:
  "stable_descending scored (sort_key (\<lambda>x. - snd x) scored)"
proof -
  have "filter (\<lambda>x. snd x = k) (sort_key (\<lambda>x. - snd x) scored) = filter (\<lambda>x. snd x = k) scored" for k
    using sort_key_stable [of "\<lambda>x. - snd x" "- k" scored] by simp
  then show ?thesis
    by (simp add: stable_descending_def sorted_uminus_rev)
qed

lemma rank_and_take_ranked:
  "0 \<le> limit \<Longrightarrow>
     \<exists>ranked. stable_descending scored ranked \<and>
       rank_and_take scored limit = map fst (take (nat limit) ranked)"
  using sort_key_stable_descending [of scored]
  by (auto simp: rank_and_take_def slice_to_def)

text \<open>
  Claim C4, as amended. For a limit that is not negative, the fingerprint table
  respecting its primary key, the fingerprint search returns the first \<open>limit\<close> books
  of a list \<open>ranked\<close>, which holds the entries of \<open>scored\<close> in descending order of
  similarity, entries of equal similarity standing in the order they have in \<open>scored\<close>.
  For an anchor whose fingerprint rests on at least 3 ratings, \<open>scored\<close> holds the
  candidates in the order in which the query returned them, each with its cosine
  similarity to the vector of the anchor; for an anchor with no fingerprint, or one on
  fewer ratings, it is empty.
\<close>

theorem similar_books_ranking:
  assumes "0 \<le> limit"
      and "distinct (map fp_book_id (fingerprints d))"
  shows "\<exists>scored ranked.
           (\<forall>target_fp.
              filter (\<lambda>f. fp_book_id f = book_id) (fingerprints d) = [target_fp] \<and>
              3 \<le> total_ratings target_fp \<longrightarrow>
              list_all2 (\<lambda>(b, s) (b', f). b = b' \<and>
                 cosine_similarity (fingerprint_vector target_fp) (fingerprint_vector f) = Inr s)
                scored (fingerprint_query d book_id exclude_book_ids)) \<and>
           ((\<forall>f\<in>set (fingerprints d). fp_book_id f = book_id \<longrightarrow> total_ratings f < 3) \<longrightarrow>
              scored = []) \<and>
           stable_descending scored ranked \<and>
           get_similar_books_by_fingerprint d book_id limit exclude_book_ids =
             Inr (map fst (take (nat limit) ranked))"
proof -
  let ?rows = "filter (\<lambda>f. fp_book_id f = book_id) (fingerprints d)"
  let ?q = "fingerprint_query d book_id exclude_book_ids"
  have empty: "stable_descending ([] :: (book \<times> real) list) []"
    by (simp add: stable_descending_def)
  from filter_key_distinct [OF assms(2), of book_id]
  consider (absent) "?rows = []" | (present) target_fp where "?rows = [target_fp]"
    by blast
  then show ?thesis
  proof cases
    case absent
    then have "get_similar_books_by_fingerprint d book_id limit exclude_book_ids = Inr []"
      by (simp add: get_similar_books_by_fingerprint_def scalar_one_or_none_def)
    with absent empty show ?thesis
      by (intro exI [of _ "[]"]) simp
  next
    case present
    then have "target_fp \<in> set ?rows" by simp
    then have mem: "target_fp \<in> set (fingerprints d)" "fp_book_id target_fp = book_id"
      by simp_all
    show ?thesis
    proof (cases "total_ratings target_fp < 3")
      case True
      with present
      have "get_similar_books_by_fingerprint d book_id limit exclude_book_ids = Inr []"
        by (simp add: get_similar_books_by_fingerprint_def scalar_one_or_none_def)
      with present True empty show ?thesis
        by (intro exI [of _ "[]"]) simp
    next
      case False
      from score_fingerprints_total [OF length_fingerprint_vector, of target_fp ?q]
      obtain scored where
        sc: "score_fingerprints (fingerprint_vector target_fp) ?q = Inr scored"
        and al: "list_all2 (\<lambda>(b, s) (b', f). b = b' \<and>
                   cosine_similarity (fingerprint_vector target_fp) (fingerprint_vector f) = Inr s)
                   scored ?q"
        by blast
      from False sc
      have res: "get_similar_books_by_fingerprint d book_id limit exclude_book_ids =
                   Inr (rank_and_take scored limit)"
        by (simp add: get_similar_books_by_fingerprint_def scalar_one_or_none_def present)
      from assms(1) rank_and_take_ranked [of limit scored]
      obtain ranked where rk: "stable_descending scored ranked"
        "rank_and_take scored limit = map fst (take (nat limit) ranked)" by blast
      from False mem
      have n: "\<not> (\<forall>f\<in>set (fingerprints d). fp_book_id f = book_id \<longrightarrow> total_ratings f < 3)"
        by blast
      have a: "\<forall>t. ?rows = [t] \<and> 3 \<le> total_ratings t \<longrightarrow>
                 list_all2 (\<lambda>(b, s) (b', f). b = b' \<and>
                   cosine_similarity (fingerprint_vector t) (fingerprint_vector f) = Inr s)
                   scored ?q"
        using al present by simp
      from n have n': "(\<forall>f\<in>set (fingerprints d). fp_book_id f = book_id \<longrightarrow> total_ratings f < 3) \<longrightarrow>
                scored = []"
        by blast
      show ?thesis
        by (rule exI [of _ scored], rule exI [of _ ranked])
           (rule conjI [OF a conjI [OF n' conjI [OF rk(1) res [unfolded rk(2)]]]])
    qed
  qed
qed

theorem similar_books_ranking_witness:
  "0 \<le> (10::int) \<and> distinct (map fp_book_id (fingerprints d4)) \<and>
   filter (\<lambda>f. fp_book_id f = 1) (fingerprints d4) = [fpr 1 (Some 5) (Some 5) 3] \<and>
   3 \<le> total_ratings (fpr 1 (Some 5) (Some 5) 3) \<and>
   get_similar_books_by_fingerprint d4 1 10 None = Inr [bk 3, bk 2] \<and>
   (\<exists>scored ranked.
      list_all2 (\<lambda>(b, s) (b', f). b = b' \<and>
         cosine_similarity (fingerprint_vector (fpr 1 (Some 5) (Some 5) 3)) (fingerprint_vector f) = Inr s)
        scored (fingerprint_query d4 1 None) \<and>
      stable_descending scored ranked \<and>
      get_similar_books_by_fingerprint d4 1 10 None = Inr (map fst (take (nat 10) ranked)))"
proof -
  have l: "0 \<le> (10::int)" by simp
  have pk: "distinct (map fp_book_id (fingerprints d4))"
    by (simp add: d4_def fpr_def)
  have f: "filter (\<lambda>f. fp_book_id f = 1) (fingerprints d4) = [fpr 1 (Some 5) (Some 5) 3]"
    by (simp add: d4_def fpr_def)
  have t: "3 \<le> total_ratings (fpr 1 (Some 5) (Some 5) 3)"
    by (simp add: fpr_def)
  have r: "get_similar_books_by_fingerprint d4 1 10 None = Inr [bk 3, bk 2]"
    by (simp add: d4_def bk_def fpr_def get_similar_books_by_fingerprint_def scalar_one_or_none_def
        fingerprint_query_def books_join_fingerprints_def given_ids_def fingerprint_vector_def
        or_neutral_def cosine_similarity_def truediv_def rank_and_take_def slice_to_def Let_def)
  from similar_books_ranking [OF l pk, of 1 None]
  obtain scored ranked where
    a: "\<forall>target_fp.
              filter (\<lambda>f. fp_book_id f = 1) (fingerprints d4) = [target_fp] \<and>
              3 \<le> total_ratings target_fp \<longrightarrow>
              list_all2 (\<lambda>(b, s) (b', f). b = b' \<and>
                 cosine_similarity (fingerprint_vector target_fp) (fingerprint_vector f) = Inr s)
                scored (fingerprint_query d4 1 None)"
    and sd: "stable_descending scored ranked"
    and res: "get_similar_books_by_fingerprint d4 1 10 None =
                Inr (map fst (take (nat 10) ranked))"
    by (elim exE conjE) (rule that; assumption)
  from a f t have "list_all2 (\<lambda>(b, s) (b', f). b = b' \<and>
         cosine_similarity (fingerprint_vector (fpr 1 (Some 5) (Some 5) 3)) (fingerprint_vector f) = Inr s)
        scored (fingerprint_query d4 1 None)" by blast
  with sd res have c: "\<exists>scored ranked.
      list_all2 (\<lambda>(b, s) (b', f). b = b' \<and>
         cosine_similarity (fingerprint_vector (fpr 1 (Some 5) (Some 5) 3)) (fingerprint_vector f) = Inr s)
        scored (fingerprint_query d4 1 None) \<and>
      stable_descending scored ranked \<and>
      get_similar_books_by_fingerprint d4 1 10 None = Inr (map fst (take (nat 10) ranked))"
    by blast
  show ?thesis
    by (rule conjI [OF l conjI [OF pk conjI [OF f conjI [OF t conjI [OF r c]]]]])
qed

text \<open>
  Claim C4 as stated breaks ties by ascending book id, truncates to every limit and
  speaks of both searches. In the sample table the books 3 and 2 have the same
  fingerprint vector, hence the same similarity to book 1, and the fingerprint search
  returns book 3 before book 2, the order of the rows. With the limit \<open>-1\<close> the slice
  drops the last book only and a list of one book is returned. The embedding search
  returns no list.
\<close>

theorem similar_books_ties_counterexample:
  "get_similar_books_by_fingerprint d4 1 10 None = Inr [bk 3, bk 2] \<and>
   fingerprint_vector (fpr 3 (Some 4) (Some 4) 3) = fingerprint_vector (fpr 2 (Some 4) (Some 4) 3) \<and>
   b_id (bk 2) < b_id (bk 3) \<and>
   get_similar_books_by_fingerprint d4 1 (- 1) None = Inr [bk 3] \<and>
   get_similar_books_by_embedding d4 1 10 None = Inl AttributeError"
  by (simp add: d4_def bk_def fpr_def get_similar_books_by_fingerprint_def
        get_similar_books_by_embedding_def scalar_one_or_none_def
        fingerprint_query_def books_join_fingerprints_def given_ids_def fingerprint_vector_def
        or_neutral_def cosine_similarity_def truediv_def rank_and_take_def slice_to_def Let_def)

section \<open>Properties of the recommendations\<close>

subsection \<open>The favourites\<close>

text \<open>
  Claim C8, as amended. The favourites used as anchors are the first three, in the order
  in which the ratings query returns its rows, of the user's own ratings whose star
  equivalent is at least 4.
\<close>

theorem favorites_first_three:
  "favorites d user_id =
     take 3 (map r_book_id
       (filter (\<lambda>r. r_user_id r = user_id \<and>
                  (case star_equivalent r of None \<Rightarrow> False | Some s \<Rightarrow> 4 \<le> s))
          (ratings d)))"
proof -
  have "(case star_equivalent r of None \<Rightarrow> False | Some s \<Rightarrow> s \<noteq> 0 \<and> 4 \<le> s) =
        (case star_equivalent r of None \<Rightarrow> False | Some s \<Rightarrow> 4 \<le> s)" for r
    by (auto split: option.splits)
  then show ?thesis
    by (simp add: favorites_def highly_rated_book_ids_def Let_def conj_commute)
qed

text \<open>
  Claim C8 as stated takes the favourites most recent first. The sample user rated the
  books 1 to 4 in that order, all with a star equivalent of 5: the anchors are the three
  oldest ratings, where the most recent first would give the books 4, 3 and 2.
\<close>

theorem favorites_recency_counterexample:
  "favorites d8 10 = [1, 2, 3] \<and> spec_favorites d8 10 = [4, 3, 2]"
  by (simp add: favorites_def highly_rated_book_ids_def spec_favorites_def d8_def r0_def
        star_equivalent_def Let_def)


subsection \<open>The recommended list\<close>

lemma similar_by_fingerprint_total:
  "distinct (map fp_book_id (fingerprints d)) \<Longrightarrow>
     \<exists>bs. get_similar_books_by_fingerprint d book_id limit exclude_book_ids = Inr bs"
  using similar_by_fingerprint_props [of d book_id limit exclude_book_ids] by blast

lemma add_similar_inv:
  "rec_inv excl0 st \<Longrightarrow> rec_inv excl0 (add_similar similar st)"
proof (induction similar st rule: add_similar.induct)
  case (1 st)
  then show ?case by simp
next
  case (2 book rest recommendations exclude_ids)
  show ?case
  proof (cases "b_id book \<notin> set exclude_ids")
    case True
    from "2.prems" True
    have "rec_inv excl0
            (recommendations @ [\<lparr> rec_book = book, rec_reason = Similar_feel, rec_score = 9 / 10 \<rparr>],
             exclude_ids @ [b_id book])"
      by (auto simp: rec_inv_def)
    with "2.IH"(1) [OF True] True show ?thesis by simp
  next
    case False
    with "2.IH"(2) "2.prems" show ?thesis by simp
  qed
qed

lemma similar_to_favorites_inv:
  assumes pk: "distinct (map fp_book_id (fingerprints d))"
  shows "rec_inv excl0 st \<Longrightarrow>
           \<exists>st'. similar_to_favorites d favs st = Inr st' \<and> rec_inv excl0 st'"
proof (induction favs arbitrary: st)
  case Nil
  then show ?case by simp
next
  case (Cons book_id rest)
  obtain recommendations exclude_ids where st: "st = (recommendations, exclude_ids)"
    by (cases st)
  from similar_by_fingerprint_total [OF pk, of book_id 5 "Some exclude_ids"]
  obtain similar where
    sim: "get_similar_books_by_fingerprint d book_id 5 (Some exclude_ids) = Inr similar"
    by blast
  from Cons.prems have "rec_inv excl0 (add_similar similar st)"
    by (rule add_similar_inv)
  from Cons.IH [OF this] sim st show ?case by simp
qed

lemma distinct_join_aux:
  assumes pkf: "distinct (map fp_book_id fps)"
  shows "distinct (map b_id bs) \<Longrightarrow>
     distinct (map (\<lambda>p. b_id (fst p))
        (concat (map (\<lambda>b. map (\<lambda>f. (b, f)) (filter (\<lambda>f. b_id b = fp_book_id f) fps)) bs)))"
proof (induction bs)
  case Nil
  then show ?case by simp
next
  case (Cons b bs)
  have eq: "filter (\<lambda>f. b_id b = fp_book_id f) fps = filter (\<lambda>f. fp_book_id f = b_id b) fps"
    by (rule filter_cong) auto
  from filter_key_distinct [OF pkf, of "b_id b"]
  have one: "filter (\<lambda>f. b_id b = fp_book_id f) fps = [] \<or>
             (\<exists>x. filter (\<lambda>f. b_id b = fp_book_id f) fps = [x])"
    unfolding eq .
  have rest: "b_id b \<notin> (\<lambda>p. b_id (fst p)) `
      set (concat (map (\<lambda>b. map (\<lambda>f. (b, f)) (filter (\<lambda>f. b_id b = fp_book_id f) fps)) bs))"
    using Cons.prems by (auto simp: image_iff)
  from Cons have ih: "distinct (map (\<lambda>p. b_id (fst p))
        (concat (map (\<lambda>b. map (\<lambda>f. (b, f)) (filter (\<lambda>f. b_id b = fp_book_id f) fps)) bs)))"
    by simp
  from one ih rest show ?case by (auto simp: image_iff)
qed

lemma distinct_join:
  "distinct (map b_id (books d)) \<Longrightarrow> distinct (map fp_book_id (fingerprints d)) \<Longrightarrow>
     distinct (map (\<lambda>p. b_id (fst p)) (books_join_fingerprints d))"
  unfolding books_join_fingerprints_def by (rule distinct_join_aux)

lemma distinct_map_sort_key:
  "distinct (map g (sort_key k xs)) = distinct (map g xs)"
proof -
  have "mset (map g (sort_key k xs)) = mset (map g xs)" by simp
  then show ?thesis by (rule mset_eq_imp_distinct_iff)
qed

lemma distinct_map_take: "distinct (map g xs) \<Longrightarrow> distinct (map g (take n xs))"
  by (simp add: take_map [symmetric])

lemma distinct_map_slice_to: "distinct (map g xs) \<Longrightarrow> distinct (map g (slice_to xs n))"
  by (simp add: slice_to_def distinct_map_take)

lemma popular_query_props:
  assumes "distinct (map b_id (books d))" and "distinct (map fp_book_id (fingerprints d))"
  shows "distinct (map (\<lambda>p. b_id (fst p)) (popular_query d excl n))"
    and "(\<lambda>p. b_id (fst p)) ` set (popular_query d excl n) \<inter> set excl = {}"
    and "0 \<le> n \<Longrightarrow> int (length (popular_query d excl n)) \<le> n"
proof -
  from distinct_join [OF assms]
  show "distinct (map (\<lambda>p. b_id (fst p)) (popular_query d excl n))"
    unfolding popular_query_def
    by (intro distinct_map_take) (simp add: distinct_map_sort_key distinct_map_filter)
  show "(\<lambda>p. b_id (fst p)) ` set (popular_query d excl n) \<inter> set excl = {}"
    by (auto simp: popular_query_def dest!: in_set_takeD)
  show "0 \<le> n \<Longrightarrow> int (length (popular_query d excl n)) \<le> n"
    by (simp add: popular_query_def)
qed

lemma initial_exclude_ids_set:
  "set (initial_exclude_ids d user_id exclude_read) = spec_exclusion_set d user_id exclude_read"
  by (auto simp: initial_exclude_ids_def spec_exclusion_set_def Let_def)


lemma mk_popular_ids:
  "map (\<lambda>r. b_id (rec_book r))
     (map (\<lambda>(b, fp). \<lparr> rec_book = b, rec_reason = Highly_rated (fp_star_equivalent fp),
                        rec_score = 7 / 10 \<rparr>) pq) = map (\<lambda>p. b_id (fst p)) pq"
  by (induction pq) auto

lemma length_slice_to: "0 \<le> n \<Longrightarrow> int (length (slice_to xs n)) \<le> n"
  by (simp add: slice_to_def)

lemma recommendations_props:
  assumes pkb: "distinct (map b_id (books d))"
      and pkf: "distinct (map fp_book_id (fingerprints d))"
  shows "\<exists>recs. get_personalized_recommendations d user_id limit exclude_read = Inr recs \<and>
           distinct (map (\<lambda>r. b_id (rec_book r)) recs) \<and>
           (0 \<le> limit \<longrightarrow> int (length recs) \<le> limit) \<and>
           (\<forall>r\<in>set recs. b_id (rec_book r) \<notin> spec_exclusion_set d user_id exclude_read)"
proof -
  let ?excl0 = "initial_exclude_ids d user_id exclude_read"
  let ?mk = "\<lambda>(b, fp). \<lparr> rec_book = b, rec_reason = Highly_rated (fp_star_equivalent fp),
                          rec_score = 7 / 10 \<rparr>"
  have "rec_inv ?excl0 ([], ?excl0)" by (simp add: rec_inv_def)
  from similar_to_favorites_inv [OF pkf this, of "favorites d user_id"]
  obtain st' where
    s0: "similar_to_favorites d (favorites d user_id) ([], ?excl0) = Inr st'"
    and inv0: "rec_inv ?excl0 st'"
    by blast
  obtain recs1 excl1 where st': "st' = (recs1, excl1)" by (cases st')
  from s0 inv0 st' have
    s1: "similar_to_favorites d (favorites d user_id) ([], ?excl0) = Inr (recs1, excl1)"
    and inv: "rec_inv ?excl0 (recs1, excl1)"
    by simp_all
  from inv have d1: "distinct (map (\<lambda>r. b_id (rec_book r)) recs1)"
    and sub1: "(\<lambda>r. b_id (rec_book r)) ` set recs1 \<subseteq> set excl1"
    and sub0: "set ?excl0 \<subseteq> set excl1"
    and dis0: "(\<lambda>r. b_id (rec_book r)) ` set recs1 \<inter> set ?excl0 = {}"
    by (simp_all add: rec_inv_def)
  define recs' where "recs' =
     (if int (length recs1) < limit
      then recs1 @ map ?mk (popular_query d excl1 (limit - int (length recs1)))
      else recs1)"
  have res: "get_personalized_recommendations d user_id limit exclude_read =
               Inr (slice_to (sort_key (\<lambda>x. - rec_score x) recs') limit)"
    by (simp add: get_personalized_recommendations_def s1 recs'_def Let_def)
  have dr: "distinct (map (\<lambda>r. b_id (rec_book r)) recs')"
   and er: "(\<lambda>r. b_id (rec_book r)) ` set recs' \<inter> set ?excl0 = {}"
  proof -
    let ?pq = "popular_query d excl1 (limit - int (length recs1))"
    have pd: "distinct (map (\<lambda>p. b_id (fst p)) ?pq)"
      by (rule popular_query_props(1) [OF pkb pkf])
    have pe: "(\<lambda>p. b_id (fst p)) ` set ?pq \<inter> set excl1 = {}"
      by (rule popular_query_props(2) [OF pkb pkf])
    have disj: "(\<lambda>r. b_id (rec_book r)) ` set recs1 \<inter> (\<lambda>p. b_id (fst p)) ` set ?pq = {}"
      using sub1 pe by blast
    have disj0: "(\<lambda>p. b_id (fst p)) ` set ?pq \<inter> set ?excl0 = {}"
      using sub0 pe by blast
    have m: "map (\<lambda>r. b_id (rec_book r)) (recs1 @ map ?mk ?pq) =
             map (\<lambda>r. b_id (rec_book r)) recs1 @ map (\<lambda>p. b_id (fst p)) ?pq"
      by (simp only: map_append mk_popular_ids)
    have "distinct (map (\<lambda>r. b_id (rec_book r)) (recs1 @ map ?mk ?pq))"
      unfolding m using d1 pd disj by (simp only: distinct_append set_map)
    moreover have "(\<lambda>r. b_id (rec_book r)) ` set (recs1 @ map ?mk ?pq) \<inter> set ?excl0 = {}"
    proof -
      have "(\<lambda>r. b_id (rec_book r)) ` set (recs1 @ map ?mk ?pq) =
            set (map (\<lambda>r. b_id (rec_book r)) (recs1 @ map ?mk ?pq))"
        by (simp only: set_map)
      also have "\<dots> = (\<lambda>r. b_id (rec_book r)) ` set recs1 \<union> (\<lambda>p. b_id (fst p)) ` set ?pq"
        unfolding m by (simp only: set_append set_map)
      finally show ?thesis using dis0 disj0 by blast
    qed
    ultimately show "distinct (map (\<lambda>r. b_id (rec_book r)) recs')"
      and "(\<lambda>r. b_id (rec_book r)) ` set recs' \<inter> set ?excl0 = {}"
      using d1 dis0 by (simp_all add: recs'_def)
  qed
  let ?out = "slice_to (sort_key (\<lambda>x. - rec_score x) recs') limit"
  have o1: "distinct (map (\<lambda>r. b_id (rec_book r)) ?out)"
    by (intro distinct_map_slice_to) (simp add: distinct_map_sort_key dr)
  have o2: "0 \<le> limit \<longrightarrow> int (length ?out) \<le> limit"
    by (simp add: length_slice_to)
  have "set ?out \<subseteq> set recs'"
    using set_slice_to [of "sort_key (\<lambda>x. - rec_score x) recs'" limit] by simp
  with er have o3: "\<forall>r\<in>set ?out. b_id (rec_book r) \<notin> spec_exclusion_set d user_id exclude_read"
    unfolding initial_exclude_ids_set [symmetric] by blast
  from res o1 o2 o3 show ?thesis by blast
qed


text \<open>
  Claim C2, as amended. With the primary keys of the books and of the fingerprints
  respected, the recommendation returns a list for every user, limit and flag; no two
  entries of the list are the same book, and no entry is a book of the exclusion set
  implied by the flag (the whole library of the user when the flag is set, its finished
  and dnf books otherwise). For a limit that is not negative the list has at most
  \<open>limit\<close> entries.
\<close>

theorem recommendations_sound:
  assumes "distinct (map b_id (books d))"
      and "distinct (map fp_book_id (fingerprints d))"
  shows "\<exists>recs. get_personalized_recommendations d user_id limit exclude_read = Inr recs \<and>
           distinct (map (\<lambda>r. b_id (rec_book r)) recs) \<and>
           (0 \<le> limit \<longrightarrow> int (length recs) \<le> limit) \<and>
           (\<forall>r\<in>set recs. b_id (rec_book r) \<notin> spec_exclusion_set d user_id exclude_read)"
  using assms by (rule recommendations_props)

theorem recommendations_sound_witness:
  "distinct (map b_id (books d8)) \<and> distinct (map fp_book_id (fingerprints d8)) \<and>
   (0::int) \<le> 3 \<and>
   get_personalized_recommendations d8 10 3 False =
     Inr [\<lparr> rec_book = bk 5, rec_reason = Similar_feel, rec_score = 9 / 10 \<rparr>,
          \<lparr> rec_book = bk 6, rec_reason = Similar_feel, rec_score = 9 / 10 \<rparr>] \<and>
   spec_exclusion_set d8 10 False = {1} \<and>
   get_personalized_recommendations d8 11 1 True =
     Inr [\<lparr> rec_book = bk 5, rec_reason = Highly_rated (Some 5), rec_score = 7 / 10 \<rparr>]"
proof -
  have pkb: "distinct (map b_id (books d8))" by (simp add: d8_def bk_def)
  have pkf: "distinct (map fp_book_id (fingerprints d8))" by (simp add: d8_def fpr_def)
  have e1: "get_similar_books_by_fingerprint d8 1 5 (Some [1]) = Inr [bk 5, bk 6]"
    by (simp add: d8_def bk_def fpr_def get_similar_books_by_fingerprint_def scalar_one_or_none_def
        fingerprint_query_def books_join_fingerprints_def given_ids_def fingerprint_vector_def
        or_neutral_def cosine_similarity_def truediv_def rank_and_take_def slice_to_def Let_def)
  have e2: "get_similar_books_by_fingerprint d8 2 5 ex = Inr []"
    "get_similar_books_by_fingerprint d8 3 5 ex = Inr []" for ex
    by (simp_all add: d8_def bk_def fpr_def get_similar_books_by_fingerprint_def
        scalar_one_or_none_def)
  have e3: "favorites d8 10 = [1, 2, 3]"
    by (simp add: favorites_def highly_rated_book_ids_def d8_def r0_def star_equivalent_def Let_def)
  have e4: "initial_exclude_ids d8 10 False = [1]"
    by (simp add: initial_exclude_ids_def d8_def Let_def)
  have e5: "popular_query d8 [1, 5, 6] 1 = []"
    by (simp add: popular_query_def d8_def bk_def fpr_def books_join_fingerprints_def)
  have e6: "get_personalized_recommendations d8 10 3 False =
     Inr [\<lparr> rec_book = bk 5, rec_reason = Similar_feel, rec_score = 9 / 10 \<rparr>,
          \<lparr> rec_book = bk 6, rec_reason = Similar_feel, rec_score = 9 / 10 \<rparr>]"
    by (simp add: get_personalized_recommendations_def e1 e2 e3 e4 e5 bk_def slice_to_def Let_def)
  have e7: "get_personalized_recommendations d8 11 1 True =
     Inr [\<lparr> rec_book = bk 5, rec_reason = Highly_rated (Some 5), rec_score = 7 / 10 \<rparr>]"
    by (simp add: get_personalized_recommendations_def favorites_def highly_rated_book_ids_def
      initial_exclude_ids_def popular_query_def books_join_fingerprints_def d8_def r0_def bk_def
      fpr_def slice_to_def Let_def)
  have e8: "spec_exclusion_set d8 10 False = {1}"
    unfolding initial_exclude_ids_set [symmetric] e4 by simp
  from recommendations_sound [OF pkb pkf, of 10 3 False] pkb pkf e6 e7 e8
  show ?thesis by simp
qed


text \<open>
  Claim C2 as stated bounds the length by every limit. For the sample user the first
  strategy finds the books 5 and 6; with the limit \<open>-1\<close> the final slice drops the last
  entry only, and the list returned has one entry.
\<close>

theorem recommendations_negative_limit_counterexample:
  "get_personalized_recommendations d8 10 (- 1) False =
     Inr [\<lparr> rec_book = bk 5, rec_reason = Similar_feel, rec_score = 9 / 10 \<rparr>] \<and>
   \<not> int (length [\<lparr> rec_book = bk 5, rec_reason = Similar_feel, rec_score = 9 / 10 \<rparr>]) \<le> - 1"
proof -
  have e1: "get_similar_books_by_fingerprint d8 1 5 (Some [1]) = Inr [bk 5, bk 6]"
    by (simp add: d8_def bk_def fpr_def get_similar_books_by_fingerprint_def scalar_one_or_none_def
        fingerprint_query_def books_join_fingerprints_def given_ids_def fingerprint_vector_def
        or_neutral_def cosine_similarity_def truediv_def rank_and_take_def slice_to_def Let_def)
  have e2: "get_similar_books_by_fingerprint d8 2 5 ex = Inr []"
    "get_similar_books_by_fingerprint d8 3 5 ex = Inr []" for ex
    by (simp_all add: d8_def bk_def fpr_def get_similar_books_by_fingerprint_def
        scalar_one_or_none_def)
  have e3: "favorites d8 10 = [1, 2, 3]"
    by (simp add: favorites_def highly_rated_book_ids_def d8_def r0_def star_equivalent_def Let_def)
  have e4: "initial_exclude_ids d8 10 False = [1]"
    by (simp add: initial_exclude_ids_def d8_def Let_def)
  show ?thesis
    by (simp add: get_personalized_recommendations_def e1 e2 e3 e4 bk_def slice_to_def Let_def)
qed


section \<open>Properties of the mood query\<close>

lemma join_row:
  "(b, f) \<in> set (books_join_fingerprints d) \<Longrightarrow>
     f \<in> set (fingerprints d) \<and> fp_book_id f = b_id b"
  by (auto simp: books_join_fingerprints_def)

lemma mood_query_known:
  assumes "lower mood \<in> set mood_labels"
  shows "get_books_by_mood d mood limit =
     (if limit < 0 then Inl DBAPIError
      else Inr (map fst (take (nat limit)
             (filter (\<lambda>(b, f). 5 \<le> total_ratings f \<and> spec_mood_predicate (lower mood) f)
                (books_join_fingerprints d)))))"
proof -
  have eq: "filter (\<lambda>(b, f). P f) (filter (\<lambda>(b, f). Q f) (filter (\<lambda>(b, f). R f) xs)) =
            filter (\<lambda>(b, f). R f \<and> Q f \<and> P f) xs" for P Q R and xs :: "(book \<times> book_fingerprint) list"
    by (induction xs) auto
  note eq = eq [unfolded case_prod_unfold]
  from assms consider "lower mood = ''comfort''" | "lower mood = ''challenge''"
    | "lower mood = ''escape''" | "lower mood = ''contemplative''"
    by (auto simp: mood_labels_def)
  then show ?thesis
  proof cases
    case 1
    then show ?thesis
      by (simp add: get_books_by_mood_def mood_filters_def Let_def eq spec_mood_predicate_def
            at_least_def at_most_def case_prod_unfold)
  next
    case 2
    then show ?thesis
      by (simp add: get_books_by_mood_def mood_filters_def Let_def eq spec_mood_predicate_def
            at_least_def at_most_def case_prod_unfold)
  next
    case 3
    then show ?thesis
      by (simp add: get_books_by_mood_def mood_filters_def Let_def eq spec_mood_predicate_def
            at_least_def at_most_def case_prod_unfold)
  next
    case 4
    then show ?thesis
      by (simp add: get_books_by_mood_def mood_filters_def Let_def eq spec_mood_predicate_def
            at_least_def at_most_def case_prod_unfold)
  qed
qed

text \<open>
  Claim C5, as amended. For a mood whose lower-case form is one of the four labels and a
  limit that is not negative, the query returns the first \<open>limit\<close> of the books whose
  fingerprint rests on at least 5 ratings and satisfies the predicate of the mood; the
  floor is the literal 5 of the query, not the 3 of the fingerprint search. Every book
  returned has a fingerprint with at least 5 ratings that satisfies the predicate.
\<close>

theorem mood_floor_five:
  assumes "lower mood \<in> set mood_labels"
  shows "(0 \<le> limit \<longrightarrow>
           get_books_by_mood d mood limit =
             Inr (map fst (take (nat limit)
               (filter (\<lambda>(b, f). 5 \<le> total_ratings f \<and> spec_mood_predicate (lower mood) f)
                  (books_join_fingerprints d))))) \<and>
         (\<forall>bs. get_books_by_mood d mood limit = Inr bs \<longrightarrow>
            (\<forall>b\<in>set bs. \<exists>f\<in>set (fingerprints d).
               fp_book_id f = b_id b \<and> 5 \<le> total_ratings f \<and>
               spec_mood_predicate (lower mood) f))"
proof -
  let ?rows = "filter (\<lambda>(b, f). 5 \<le> total_ratings f \<and> spec_mood_predicate (lower mood) f)
                 (books_join_fingerprints d)"
  note q = mood_query_known [OF assms, of d limit]
  have p: "\<exists>f\<in>set (fingerprints d). fp_book_id f = b_id b \<and> 5 \<le> total_ratings f \<and>
             spec_mood_predicate (lower mood) f"
    if "b \<in> set (map fst (take (nat limit) ?rows))" for b
  proof -
    from that obtain f where "(b, f) \<in> set (take (nat limit) ?rows)" by auto
    then have "(b, f) \<in> set ?rows" by (rule in_set_takeD)
    then have "(b, f) \<in> set (books_join_fingerprints d)" "5 \<le> total_ratings f"
      "spec_mood_predicate (lower mood) f" by auto
    with join_row [of b f d] show ?thesis by blast
  qed
  show ?thesis
  proof (cases "limit < 0")
    case True
    with q show ?thesis by simp
  next
    case False
    with q have "get_books_by_mood d mood limit = Inr (map fst (take (nat limit) ?rows))" by simp
    with p show ?thesis by simp
  qed
qed

lemma lower_samples:
  "lower ''comfort'' = ''comfort''" "lower ''COMFORT'' = ''comfort''"
  "lower ''nostalgic'' = ''nostalgic''"
  by (simp_all add: lower_def lower_char_def)

lemma d5_join: "books_join_fingerprints d5 = [(bk 1, fpm 1 3), (bk 2, fpm 2 5)]"
  by (simp add: books_join_fingerprints_def d5_def bk_def fpm_def)

lemma d5_pred: "spec_mood_predicate ''comfort'' (fpm i n)"
  by (simp add: spec_mood_predicate_def at_least_def at_most_def fpm_def)

theorem mood_floor_five_witness:
  "lower ''comfort'' \<in> set mood_labels \<and> 0 \<le> (10::int) \<and>
   get_books_by_mood d5 ''comfort'' 10 = Inr [bk 2] \<and>
   fp_book_id (fpm 2 5) = b_id (bk 2) \<and> 5 \<le> total_ratings (fpm 2 5) \<and>
   spec_mood_predicate (lower ''comfort'') (fpm 2 5)"
proof -
  have m: "lower ''comfort'' \<in> set mood_labels"
    by (simp add: lower_samples mood_labels_def)
  have "get_books_by_mood d5 ''comfort'' 10 =
          Inr (map fst (take (nat 10)
            (filter (\<lambda>(b, f). 5 \<le> total_ratings f \<and> spec_mood_predicate (lower ''comfort'') f)
               (books_join_fingerprints d5))))"
    using mood_floor_five [OF m, of 10 d5] by simp
  then have r: "get_books_by_mood d5 ''comfort'' 10 = Inr [bk 2]"
    by (simp add: d5_join lower_samples d5_pred) (simp add: fpm_def)
  from m r show ?thesis
    by (simp add: lower_samples d5_pred) (simp add: fpm_def bk_def)
qed

text \<open>
  Claim C5 as stated puts the floor of the mood query at the 3 of the fingerprint
  search. Book 1 of the sample has a fingerprint with 3 ratings that satisfies the
  predicate of comfort, and the query does not return it; book 2, with the same averages
  over 5 ratings, is returned. With the floor of the claim both books would be.
\<close>

theorem mood_floor_counterexample:
  "get_books_by_mood d5 ''comfort'' 10 = Inr [bk 2] \<and>
   spec_books_by_mood d5 ''comfort'' 10 = [bk 1, bk 2] \<and>
   books_join_fingerprints d5 = [(bk 1, fpm 1 3), (bk 2, fpm 2 5)] \<and>
   3 \<le> total_ratings (fpm 1 3) \<and> spec_mood_predicate ''comfort'' (fpm 1 3)"
  by (simp add: d5_join d5_pred get_books_by_mood_def spec_books_by_mood_def lower_samples
        mood_filters_def Let_def)
     (simp add: fpm_def)

text \<open>
  Claim C6, as amended. For a mood whose lower-case form is not one of the four labels,
  the query returns the empty list, whatever the limit; no error is raised.
\<close>

theorem unknown_mood_returns_empty:
  assumes "lower mood \<notin> set mood_labels"
  shows "get_books_by_mood d mood limit = Inr []"
proof -
  from assms have "map_of mood_filters (lower mood) = None"
    by (simp add: mood_filters_def mood_labels_def)
  then show ?thesis by (simp add: get_books_by_mood_def)
qed

theorem unknown_mood_returns_empty_witness:
  "lower ''nostalgic'' \<notin> set mood_labels \<and> get_books_by_mood d5 ''nostalgic'' 10 = Inr []"
proof -
  have m: "lower ''nostalgic'' \<notin> set mood_labels"
    by (simp add: lower_samples mood_labels_def)
  from m unknown_mood_returns_empty [OF m, of d5 10] show ?thesis by simp
qed

text \<open>
  Claim C6 as stated has every string other than the four labels rejected with an
  error. The string \<open>nostalgic\<close> is answered with the empty list, and the string
  \<open>COMFORT\<close>, which is none of the labels, is answered as the mood comfort.
\<close>

theorem unknown_mood_counterexample:
  "''nostalgic'' \<notin> set mood_labels \<and> get_books_by_mood d5 ''nostalgic'' 10 = Inr [] \<and>
   ''COMFORT'' \<notin> set mood_labels \<and> get_books_by_mood d5 ''COMFORT'' 10 = Inr [bk 2]"
  by (simp add: mood_labels_def d5_join d5_pred get_books_by_mood_def lower_samples
        mood_filters_def Let_def)
     (simp add: fpm_def)


section \<open>Properties of the submission of a rating\<close>

lemma update_book_fingerprint_frame:
  "update_book_fingerprint d b now = Inr (d', fp) \<Longrightarrow>
     ratings d' = ratings d \<and> books d' = books d"
  by (auto simp: update_book_fingerprint_def scalar_one_or_none_def Let_def
        split: list.splits if_splits)

lemma distinct_key_eq:
  "distinct (map key xs) \<Longrightarrow> x \<in> set xs \<Longrightarrow> y \<in> set xs \<Longrightarrow> key x = key y \<Longrightarrow> x = y"
  by (meson distinct_map inj_onD)

lemma filter_replace_by_key:
  assumes d: "distinct (map key xs)" and f: "filter P xs = [old]" and n: "P new"
  shows "filter P (map (\<lambda>r. if key r = key old then new else r) xs) = [new]"
proof -
  from f have "old \<in> set (filter P xs)" by simp
  then have mem: "old \<in> set xs" and pold: "P old" by simp_all
  have same: "key x = key old \<longleftrightarrow> x = old" if "x \<in> set xs" for x
    using distinct_key_eq [OF d that mem] by auto
  have m: "map (\<lambda>r. if key r = key old then new else r) xs =
        map (\<lambda>r. if r = old then new else r) xs"
    by (rule map_cong) (simp_all add: same)
  have g: "filter P ys = [old] \<Longrightarrow> distinct ys \<Longrightarrow>
        filter P (map (\<lambda>r. if r = old then new else r) ys) = [new]" for ys
  proof (induction ys)
    case Nil
    then show ?case by simp
  next
    case (Cons y ys)
    show ?case
    proof (cases "y = old")
      case True
      with Cons.prems pold have e: "filter P ys = []" and nin: "old \<notin> set ys" by simp_all
      from nin have "map (\<lambda>r. if r = old then new else r) ys = ys"
        by (induction ys) auto
      with True e n show ?thesis by simp
    next
      case False
      with Cons.prems have "\<not> P y \<or> filter P ys = []" by (auto split: if_splits)
      moreover have "filter P ys \<noteq> [] \<or> \<not> P y"
        using Cons.prems False by (auto split: if_splits)
      ultimately have np: "\<not> P y" by blast
      with Cons.prems have "filter P ys = [old]" "distinct ys" by simp_all
      from Cons.IH [OF this] np False show ?thesis by simp
    qed
  qed
  from d have dx: "distinct xs" by (simp add: distinct_map)
  show ?thesis unfolding m by (rule g [OF f dx])
qed

lemma length_filter_map_same:
  "(\<And>x. x \<in> set xs \<Longrightarrow> Q (g x) = Q x) \<Longrightarrow>
     length (filter Q (map g xs)) = length (filter Q xs)"
  by (induction xs) auto

lemma apply_update_fields:
  "r_id (apply_update old rd now) = r_id old"
  "r_user_id (apply_update old rd now) = r_user_id old"
  "r_book_id (apply_update old rd now) = r_book_id old"
  "r_created_at (apply_update old rd now) = r_created_at old"
  "r_updated_at (apply_update old rd now) = Some now"
  "spec_field_frame (rc_pace rd) (pace old) (pace (apply_update old rd now))"
  "spec_field_frame (rc_emotional_impact rd) (emotional_impact old)
     (emotional_impact (apply_update old rd now))"
  "spec_field_frame (rc_complexity rd) (complexity old) (complexity (apply_update old rd now))"
  "spec_field_frame (rc_character_development rd) (character_development old)
     (character_development (apply_update old rd now))"
  "spec_field_frame (rc_plot_quality rd) (plot_quality old)
     (plot_quality (apply_update old rd now))"
  "spec_field_frame (rc_prose_style rd) (prose_style old) (prose_style (apply_update old rd now))"
  "spec_field_frame (rc_originality rd) (originality old) (originality (apply_update old rd now))"
  by (simp_all add: apply_update_def spec_field_frame_def set_given_def split: option.splits)

lemma create_or_update_existing:
  assumes "filter (\<lambda>r. r_user_id r = u \<and> r_book_id r = rc_book_id rd) (ratings d) = [old]"
  shows "(fst (create_or_update_rating d u rd now) = d \<and>
          (\<exists>e. snd (create_or_update_rating d u rd now) = Inl e)) \<or>
         (ratings (fst (create_or_update_rating d u rd now)) =
            map (\<lambda>r. if r_id r = r_id old then apply_update old rd now else r) (ratings d) \<and>
          (\<forall>r. snd (create_or_update_rating d u rd now) = Inr r \<longrightarrow> r = apply_update old rd now))"
  using assms
  by (auto simp: create_or_update_rating_def scalar_one_or_none_def Let_def
        dest!: update_book_fingerprint_frame split: list.splits sum.splits)


lemma create_or_update_success:
  assumes ex: "filter (\<lambda>r. r_user_id r = u \<and> r_book_id r = rc_book_id rd) (ratings d) = [old]"
      and pkr: "distinct (map r_id (ratings d))"
      and bk: "filter (\<lambda>b. b_id b = rc_book_id rd) (books d) = [book]"
      and ok: "check_ok old" "valid_request rd"
      and pkf: "distinct (map fp_book_id (fingerprints d))"
      and small: "length (filter (\<lambda>r. r_book_id r = rc_book_id rd) (ratings d)) \<le> 32767"
  shows "snd (create_or_update_rating d u rd now) = Inr (apply_update old rd now)"
proof -
  let ?new = "apply_update old rd now"
  let ?upd = "\<lambda>r. if r_id r = r_id old then ?new else r"
  let ?d' = "d \<lparr> ratings := map ?upd (ratings d) \<rparr>"
  let ?b = "rc_book_id rd"
  from ex have "old \<in> set (filter (\<lambda>r. r_user_id r = u \<and> r_book_id r = ?b) (ratings d))"
    by simp
  then have mem: "old \<in> set (ratings d)" and ob: "r_book_id old = ?b" by simp_all
  from bk have "book \<in> set (filter (\<lambda>b. b_id b = ?b) (books d))" by simp
  then have "book \<in> set (books d)" "b_id book = ?b" by simp_all
  then have "?b \<in> b_id ` set (books d)" by (metis imageI)
  then have fk: "?b \<in> b_id ` set (books ?d')" by simp
  have pk: "distinct (map fp_book_id (fingerprints ?d'))" using pkf by simp
  have c: "check_ok ?new"
    using ok
    by (auto simp: check_ok_def valid_request_def apply_update_def set_given_def
          split: option.splits)
  have q: "(r_book_id (?upd x) = ?b) = (r_book_id x = ?b)" if "x \<in> set (ratings d)" for x
  proof (cases "r_id x = r_id old")
    case True
    from distinct_key_eq [OF pkr that mem True] have "x = old" .
    with ob show ?thesis by (simp add: apply_update_fields)
  next
    case False
    then show ?thesis by simp
  qed
  have "length (filter (\<lambda>r. r_book_id r = ?b) (map ?upd (ratings d))) =
        length (filter (\<lambda>r. r_book_id r = ?b) (ratings d))"
    by (rule length_filter_map_same) (rule q)
  with small have sm: "s_total_ratings (stats_query ?d' ?b) \<le> 32767"
    by (simp add: total_of_stats)
  from update_book_fingerprint_row [OF pk fk sm, of now]
  obtain d'' fp where "update_book_fingerprint ?d' ?b now = Inr (d'', fp)" by blast
  with c show ?thesis
    by (simp add: create_or_update_rating_def scalar_one_or_none_def Let_def bk ex)
qed

text \<open>
  Claim C10. Let a user submit a rating for a book for which the user has a stored
  rating, the ratings table respecting its primary key. After the request the user
  still has exactly one rating of the book, with the id, the user, the book and the
  creation time of the stored one, and every dimension that the request leaves out has
  the value it had. When the request succeeds, the row returned is that rating, each
  dimension that the request sets has the value of the request, and each dimension that
  it leaves out its previous value. The request succeeds when it passed the validation
  of the schema, the book exists, the stored rating and the fingerprint table respect
  the constraints of their tables, and the book has at most 32767 ratings.
\<close>

theorem update_keeps_omitted_fields:
  assumes "filter (\<lambda>r. r_user_id r = u \<and> r_book_id r = rc_book_id rd) (ratings d) = [old]"
      and "distinct (map r_id (ratings d))"
  shows "\<exists>r'.
           filter (\<lambda>r. r_user_id r = u \<and> r_book_id r = rc_book_id rd)
             (ratings (fst (create_or_update_rating d u rd now))) = [r'] \<and>
           r_id r' = r_id old \<and> r_user_id r' = r_user_id old \<and>
           r_book_id r' = r_book_id old \<and> r_created_at r' = r_created_at old \<and>
           (rc_pace rd = None \<longrightarrow> pace r' = pace old) \<and>
           (rc_emotional_impact rd = None \<longrightarrow> emotional_impact r' = emotional_impact old) \<and>
           (rc_complexity rd = None \<longrightarrow> complexity r' = complexity old) \<and>
           (rc_character_development rd = None \<longrightarrow>
              character_development r' = character_development old) \<and>
           (rc_plot_quality rd = None \<longrightarrow> plot_quality r' = plot_quality old) \<and>
           (rc_prose_style rd = None \<longrightarrow> prose_style r' = prose_style old) \<and>
           (rc_originality rd = None \<longrightarrow> originality r' = originality old) \<and>
           (\<forall>rating. snd (create_or_update_rating d u rd now) = Inr rating \<longrightarrow>
              rating = r' \<and>
              spec_field_frame (rc_pace rd) (pace old) (pace r') \<and>
              spec_field_frame (rc_emotional_impact rd) (emotional_impact old)
                (emotional_impact r') \<and>
              spec_field_frame (rc_complexity rd) (complexity old) (complexity r') \<and>
              spec_field_frame (rc_character_development rd) (character_development old)
                (character_development r') \<and>
              spec_field_frame (rc_plot_quality rd) (plot_quality old) (plot_quality r') \<and>
              spec_field_frame (rc_prose_style rd) (prose_style old) (prose_style r') \<and>
              spec_field_frame (rc_originality rd) (originality old) (originality r')) \<and>
           ((\<exists>book. filter (\<lambda>b. b_id b = rc_book_id rd) (books d) = [book]) \<and>
            check_ok old \<and> valid_request rd \<and>
            distinct (map fp_book_id (fingerprints d)) \<and>
            length (filter (\<lambda>r. r_book_id r = rc_book_id rd) (ratings d)) \<le> 32767 \<longrightarrow>
            snd (create_or_update_rating d u rd now) = Inr r')"
proof -
  let ?F = "create_or_update_rating d u rd now"
  let ?P = "\<lambda>r. r_user_id r = u \<and> r_book_id r = rc_book_id rd"
  let ?new = "apply_update old rd now"
  from assms(1) have "old \<in> set (filter ?P (ratings d))" by simp
  then have pold: "?P old" by simp
  note fr = apply_update_fields [where old = old and rd = rd and now = now]
  from create_or_update_existing [OF assms(1), of now]
  consider (rejected) "fst ?F = d" "\<exists>e. snd ?F = Inl e"
    | (written) "ratings (fst ?F) =
                   map (\<lambda>r. if r_id r = r_id old then ?new else r) (ratings d)"
                "\<forall>r. snd ?F = Inr r \<longrightarrow> r = ?new"
    by blast
  then show ?thesis
  proof cases
    case rejected
    have s: "snd ?F \<noteq> Inr r" for r using rejected(2) by auto
    have n: "\<not> ((\<exists>book. filter (\<lambda>b. b_id b = rc_book_id rd) (books d) = [book]) \<and>
            check_ok old \<and> valid_request rd \<and>
            distinct (map fp_book_id (fingerprints d)) \<and>
            length (filter (\<lambda>r. r_book_id r = rc_book_id rd) (ratings d)) \<le> 32767)"
    proof
      assume h: "(\<exists>book. filter (\<lambda>b. b_id b = rc_book_id rd) (books d) = [book]) \<and>
            check_ok old \<and> valid_request rd \<and>
            distinct (map fp_book_id (fingerprints d)) \<and>
            length (filter (\<lambda>r. r_book_id r = rc_book_id rd) (ratings d)) \<le> 32767"
      then obtain book where "filter (\<lambda>b. b_id b = rc_book_id rd) (books d) = [book]" by blast
      from create_or_update_success [OF assms this, of now] h s show False by simp
    qed
    show ?thesis
      by (rule exI [of _ old]) (simp add: rejected(1) assms(1) s n)
  next
    case written
    from pold have pnew: "?P ?new" by (simp add: fr)
    have f: "filter ?P (ratings (fst ?F)) = [?new]"
      unfolding written(1) by (rule filter_replace_by_key [OF assms(2,1) pnew])
    have su: "snd ?F = Inr ?new"
      if "(\<exists>book. filter (\<lambda>b. b_id b = rc_book_id rd) (books d) = [book]) \<and>
            check_ok old \<and> valid_request rd \<and>
            distinct (map fp_book_id (fingerprints d)) \<and>
            length (filter (\<lambda>r. r_book_id r = rc_book_id rd) (ratings d)) \<le> 32767"
    proof -
      from that obtain book where "filter (\<lambda>b. b_id b = rc_book_id rd) (books d) = [book]"
        by blast
      from create_or_update_success [OF assms this, of now] that show ?thesis by simp
    qed
    have om: "rc_pace rd = None \<longrightarrow> pace ?new = pace old"
      "rc_emotional_impact rd = None \<longrightarrow> emotional_impact ?new = emotional_impact old"
      "rc_complexity rd = None \<longrightarrow> complexity ?new = complexity old"
      "rc_character_development rd = None \<longrightarrow>
         character_development ?new = character_development old"
      "rc_plot_quality rd = None \<longrightarrow> plot_quality ?new = plot_quality old"
      "rc_prose_style rd = None \<longrightarrow> prose_style ?new = prose_style old"
      "rc_originality rd = None \<longrightarrow> originality ?new = originality old"
      by (simp_all add: apply_update_def set_given_def)
    have succ: "\<forall>rating. snd ?F = Inr rating \<longrightarrow>
              rating = ?new \<and>
              spec_field_frame (rc_pace rd) (pace old) (pace ?new) \<and>
              spec_field_frame (rc_emotional_impact rd) (emotional_impact old)
                (emotional_impact ?new) \<and>
              spec_field_frame (rc_complexity rd) (complexity old) (complexity ?new) \<and>
              spec_field_frame (rc_character_development rd) (character_development old)
                (character_development ?new) \<and>
              spec_field_frame (rc_plot_quality rd) (plot_quality old) (plot_quality ?new) \<and>
              spec_field_frame (rc_prose_style rd) (prose_style old) (prose_style ?new) \<and>
              spec_field_frame (rc_originality rd) (originality old) (originality ?new)"
      using written(2) fr(6-12) by blast
    have su': "(\<exists>book. filter (\<lambda>b. b_id b = rc_book_id rd) (books d) = [book]) \<and>
            check_ok old \<and> valid_request rd \<and>
            distinct (map fp_book_id (fingerprints d)) \<and>
            length (filter (\<lambda>r. r_book_id r = rc_book_id rd) (ratings d)) \<le> 32767 \<longrightarrow>
            snd ?F = Inr ?new"
      using su by blast
    show ?thesis
      by (rule exI [of _ ?new])
         (rule conjI f fr(1) fr(2) fr(3) fr(4) om succ su')+
  qed
qed


theorem update_keeps_omitted_fields_witness:
  "filter (\<lambda>r. r_user_id r = 10 \<and> r_book_id r = rc_book_id rd0) (ratings d0) =
     [r0 1 10 1 (Some 5) (Some 4) 1] \<and>
   distinct (map r_id (ratings d0)) \<and>
   rc_pace rd0 = Some (Some 3) \<and> rc_emotional_impact rd0 = None \<and>
   ((\<exists>book. filter (\<lambda>b. b_id b = rc_book_id rd0) (books d0) = [book]) \<and>
    check_ok (r0 1 10 1 (Some 5) (Some 4) 1) \<and> valid_request rd0 \<and>
    distinct (map fp_book_id (fingerprints d0)) \<and>
    length (filter (\<lambda>r. r_book_id r = rc_book_id rd0) (ratings d0)) \<le> 32767) \<and>
   (\<exists>r'. snd (create_or_update_rating d0 10 rd0 9) = Inr r' \<and>
      filter (\<lambda>r. r_user_id r = 10 \<and> r_book_id r = rc_book_id rd0)
        (ratings (fst (create_or_update_rating d0 10 rd0 9))) = [r'] \<and>
      pace r' = Some 3 \<and> emotional_impact r' = Some 4 \<and>
      r_user_id r' = 10 \<and> r_book_id r' = 1 \<and> r_created_at r' = 1)"
proof -
  let ?old = "r0 1 10 1 (Some 5) (Some 4) 1"
  have h1: "filter (\<lambda>r. r_user_id r = 10 \<and> r_book_id r = rc_book_id rd0) (ratings d0) = [?old]"
    by (simp add: d0_def r0_def rd0_def)
  have h2: "distinct (map r_id (ratings d0))"
    by (simp add: d0_def r0_def)
  have q: "rc_pace rd0 = Some (Some 3)" "rc_emotional_impact rd0 = None"
    by (simp_all add: rd0_def)
  have bkx: "filter (\<lambda>b. b_id b = rc_book_id rd0) (books d0) = [bk 1]"
    by (simp add: d0_def bk_def rd0_def)
  have h3: "(\<exists>book. filter (\<lambda>b. b_id b = rc_book_id rd0) (books d0) = [book]) \<and>
    check_ok ?old \<and> valid_request rd0 \<and>
    distinct (map fp_book_id (fingerprints d0)) \<and>
    length (filter (\<lambda>r. r_book_id r = rc_book_id rd0) (ratings d0)) \<le> 32767"
    using bkx
    by (simp add: check_ok_def valid_request_def valid_value_def r0_def rd0_def)
       (simp add: d0_def r0_def)
  from update_keeps_omitted_fields [OF h1 h2, of 9]
  obtain r' where
    f: "filter (\<lambda>r. r_user_id r = 10 \<and> r_book_id r = rc_book_id rd0)
          (ratings (fst (create_or_update_rating d0 10 rd0 9))) = [r']"
    and ids: "r_user_id r' = r_user_id ?old" "r_book_id r' = r_book_id ?old"
      "r_created_at r' = r_created_at ?old"
    and om: "rc_emotional_impact rd0 = None \<longrightarrow> emotional_impact r' = emotional_impact ?old"
    and su: "\<forall>rating. snd (create_or_update_rating d0 10 rd0 9) = Inr rating \<longrightarrow>
              rating = r' \<and>
              spec_field_frame (rc_pace rd0) (pace ?old) (pace r') \<and>
              spec_field_frame (rc_emotional_impact rd0) (emotional_impact ?old)
                (emotional_impact r') \<and>
              spec_field_frame (rc_complexity rd0) (complexity ?old) (complexity r') \<and>
              spec_field_frame (rc_character_development rd0) (character_development ?old)
                (character_development r') \<and>
              spec_field_frame (rc_plot_quality rd0) (plot_quality ?old) (plot_quality r') \<and>
              spec_field_frame (rc_prose_style rd0) (prose_style ?old) (prose_style r') \<and>
              spec_field_frame (rc_originality rd0) (originality ?old) (originality r')"
    and ok: "(\<exists>book. filter (\<lambda>b. b_id b = rc_book_id rd0) (books d0) = [book]) \<and>
        check_ok ?old \<and> valid_request rd0 \<and>
        distinct (map fp_book_id (fingerprints d0)) \<and>
        length (filter (\<lambda>r. r_book_id r = rc_book_id rd0) (ratings d0)) \<le> 32767 \<longrightarrow>
        snd (create_or_update_rating d0 10 rd0 9) = Inr r'"
    by (elim exE conjE) (rule that; assumption)
  from ok h3 have s: "snd (create_or_update_rating d0 10 rd0 9) = Inr r'" by blast
  with su have "spec_field_frame (rc_pace rd0) (pace ?old) (pace r')" by blast
  with q have p: "pace r' = Some 3" by (simp add: spec_field_frame_def)
  from om q have e: "emotional_impact r' = Some 4" by (simp add: r0_def)
  from ids have i: "r_user_id r' = 10" "r_book_id r' = 1" "r_created_at r' = 1"
    by (simp_all add: r0_def)
  from s f p e i have "\<exists>r'. snd (create_or_update_rating d0 10 rd0 9) = Inr r' \<and>
      filter (\<lambda>r. r_user_id r = 10 \<and> r_book_id r = rc_book_id rd0)
        (ratings (fst (create_or_update_rating d0 10 rd0 9))) = [r'] \<and>
      pace r' = Some 3 \<and> emotional_impact r' = Some 4 \<and>
      r_user_id r' = 10 \<and> r_book_id r' = 1 \<and> r_created_at r' = 1"
    by blast
  with h1 h2 q h3 show ?thesis by blast
qed

end
